theory Spec2Isabelle
  imports Complex_Main "HOL-Library.AList" "HOL-Library.Sublist"
begin

section \<open>Common types\<close>

text \<open>
  A naive \<^verbatim>\<open>datetime\<close> is a point of the proleptic Gregorian calendar without leap
  seconds; it is modelled as the number of microseconds counted from a midnight, so that
  every hour is 3600000000 microseconds long and starts at a multiple of that number.
  A \<^verbatim>\<open>timedelta\<close> is a number of microseconds. The range limits of both Python
  types (years 1 to 9999) are not modelled.

  A Python float is modelled as the real number it stands for. The statistics of the
  services are computed in exact real arithmetic. Where a comparison of the source depends
  on the rounding of a float operation, as in \<^verbatim>\<open>route_prediction\<close>, the operation is
  rounded in the model too.

  A method of a service reads \<^verbatim>\<open>datetime.utcnow()\<close> a few times in a row during one
  call. The model passes one reading \<open>now\<close> to the call and uses it for each of them.
\<close>

type_synonym datetime = int
type_synonym timedelta = int

definition timedelta_minutes :: "int \<Rightarrow> timedelta" where
  "timedelta_minutes m = m * 60000000"

definition timedelta_hours :: "int \<Rightarrow> timedelta" where
  "timedelta_hours h = h * 3600000000"

definition timedelta_days :: "int \<Rightarrow> timedelta" where
  "timedelta_days d = d * 86400000000"

text \<open>
  The rounding of a real number to the nearest IEEE 754 double (53 significant bits, ties to
  the even significand). Overflow and subnormal numbers are not modelled.
\<close>

definition round_half_even :: "real \<Rightarrow> int" where
  "round_half_even q =
     (let f = \<lfloor>q\<rfloor>;
          r = q - of_int f
      in if r < 1 / 2 then f
         else if r > 1 / 2 then f + 1
         else if even f then f
         else f + 1)"

definition round_double :: "real \<Rightarrow> real" where
  "round_double x =
     (if x = 0 then 0
      else
        let e = \<lfloor>log 2 \<bar>x\<bar>\<rfloor>;
            ulp = 2 powr (of_int e - 52)
        in of_int (round_half_even (x / ulp)) * ulp)"

text \<open>
  The division of two floats, \<^verbatim>\<open>a / b\<close> with \<open>b\<close> not 0: the exact quotient, rounded.
\<close>

definition float_div :: "real \<Rightarrow> real \<Rightarrow> real" where
  "float_div a b = round_double (a / b)"

datatype error =
    ValueError string
  | ZeroDivisionError
  | TypeError
  | KeyError
  | IntegrityError

section \<open>A/B tests (drift\_detection\_service.py)\<close>

datatype ABTestStatus = RUNNING | COMPLETED | PAUSED | CANCELLED

text \<open>
  The JSON column \<^verbatim>\<open>metrics\<close> holds a dictionary with the two keys
  \<^verbatim>\<open>'champion'\<close> and \<^verbatim>\<open>'challenger'\<close>, each a dictionary from a metric name to
  the list of recorded values. A Python dictionary keeps its keys in insertion order, so
  each is an association list.
\<close>

record variant_metrics =
  champion :: "(string \<times> real list) list"
  challenger :: "(string \<times> real list) list"

record ABTest =
  test_id :: string
  test_name :: string
  description :: "string option"
  champion_model :: string
  champion_version :: string
  challenger_model :: string
  challenger_version :: string
  traffic_split :: real
  min_sample_size :: int
  max_duration_days :: int
  significance_level :: real
  status :: ABTestStatus
  champion_samples :: int
  challenger_samples :: int
  winner :: "string option"
  statistical_significance :: bool
  metrics :: "variant_metrics option"
  started_at :: datetime
  completed_at :: "datetime option"

text \<open>
  The table \<^verbatim>\<open>ab_tests\<close>: the column \<^verbatim>\<open>test_id\<close> is unique, and every query of the
  service is \<^verbatim>\<open>ABTest.query.filter_by(test_id=test_id).first()\<close>, so the table is a map
  from the test id to its row. The row object a query returns is the state the service
  mutates.
\<close>

type_synonym ab_table = "string \<rightharpoonup> ABTest"

text \<open>\<^verbatim>\<open>d.get(k, [])\<close>\<close>

definition dict_get :: "('k \<times> 'v list) list \<Rightarrow> 'k \<Rightarrow> 'v list" where
  "dict_get d k = (case map_of d k of None \<Rightarrow> [] | Some xs \<Rightarrow> xs)"

text \<open>\<^verbatim>\<open>if k not in d: d[k] = []\<close> followed by \<^verbatim>\<open>d[k].append(v)\<close>\<close>

definition dict_append :: "('k \<times> 'v list) list \<Rightarrow> 'k \<Rightarrow> 'v \<Rightarrow> ('k \<times> 'v list) list" where
  "dict_append d k v = AList.update k (dict_get d k @ [v]) d"

text \<open>\<^verbatim>\<open>numpy.mean\<close> of a non-empty list\<close>

definition np_mean :: "real list \<Rightarrow> real" where
  "np_mean xs = sum_list xs / real (length xs)"

text \<open>
  \<^verbatim>\<open>scipy.stats.ttest_ind\<close> is a parameter of the model: \<open>ttest_ind xs ys\<close> is the p-value
  of the test, \<open>None\<close> when scipy returns NaN. A comparison with NaN is false.
\<close>

type_synonym ttest = "real list \<Rightarrow> real list \<Rightarrow> real option"

definition p_less :: "real option \<Rightarrow> real \<Rightarrow> bool" where
  "p_less p level = (case p of None \<Rightarrow> False | Some v \<Rightarrow> v < level)"

subsection \<open>create\_ab\_test\<close>

text \<open>
  \<open>new_id\<close> is the value of \<^verbatim>\<open>_generate_test_id()\<close> (a date and eight characters of a
  uuid4) and \<open>now\<close> the reading of \<^verbatim>\<open>datetime.utcnow()\<close> that the column default of
  \<^verbatim>\<open>started_at\<close> takes. The other column defaults are written out. The unique
  constraint of \<^verbatim>\<open>test_id\<close> rejects an id that is already in the table.
\<close>

definition create_ab_test ::
  "string \<Rightarrow> datetime \<Rightarrow> ab_table \<Rightarrow> string \<Rightarrow> string \<Rightarrow> string \<Rightarrow> string \<Rightarrow> string
     \<Rightarrow> real \<Rightarrow> int \<Rightarrow> int \<Rightarrow> string option \<Rightarrow> error + (ab_table \<times> ABTest)" where
  "create_ab_test new_id now db name champ_model champ_version chall_model chall_version
       split min_samples max_days descr =
     (let test = \<lparr> test_id = new_id,
                   test_name = name,
                   description = descr,
                   champion_model = champ_model,
                   champion_version = champ_version,
                   challenger_model = chall_model,
                   challenger_version = chall_version,
                   traffic_split = split,
                   min_sample_size = min_samples,
                   max_duration_days = max_days,
                   significance_level = 0.05,
                   status = RUNNING,
                   champion_samples = 0,
                   challenger_samples = 0,
                   winner = None,
                   statistical_significance = False,
                   metrics = None,
                   started_at = now,
                   completed_at = None \<rparr>
      in if db new_id \<noteq> None then Inl IntegrityError
         else Inr (db(new_id \<mapsto> test), test))"

subsection \<open>route\_prediction\<close>

text \<open>
  \<open>md5 s\<close> is \<^verbatim>\<open>int(hashlib.md5(s.encode()).hexdigest(), 16)\<close>, a parameter of the
  model. The assignment \<^verbatim>\<open>(hash_val % 100) / 100.0\<close> is a division of floats, and the
  traffic split of the test is a float.
\<close>

definition route_prediction ::
  "(string \<Rightarrow> nat) \<Rightarrow> ab_table \<Rightarrow> string \<Rightarrow> string \<Rightarrow> error + (string \<times> string)" where
  "route_prediction md5 db tid request_id =
     (case db tid of
        None \<Rightarrow> Inl (ValueError (''Test '' @ tid @ '' not found or not running''))
      | Some test \<Rightarrow>
          if status test \<noteq> RUNNING
          then Inl (ValueError (''Test '' @ tid @ '' not found or not running''))
          else
            let hash_val = md5 request_id;
                assignment = float_div (real (hash_val mod 100)) 100
            in if assignment < traffic_split test
               then Inr (challenger_model test, challenger_version test)
               else Inr (champion_model test, champion_version test))"

subsection \<open>record\_result\<close>

text \<open>\<^verbatim>\<open>if not test.metrics: test.metrics = {'champion': ..., 'challenger': ...}\<close>\<close>

definition ensure_metrics :: "ABTest \<Rightarrow> ABTest" where
  "ensure_metrics test =
     (case metrics test of
        None \<Rightarrow> test\<lparr>metrics := Some \<lparr>champion = [], challenger = []\<rparr>\<rparr>
      | Some m \<Rightarrow> test)"

definition get_metrics :: "ABTest \<Rightarrow> variant_metrics" where
  "get_metrics test =
     (case metrics test of None \<Rightarrow> \<lparr>champion = [], challenger = []\<rparr> | Some m \<Rightarrow> m)"

text \<open>The block of \<^verbatim>\<open>record_result\<close> between the lookup of the test and the commit.\<close>

definition record_sample :: "ABTest \<Rightarrow> string \<Rightarrow> string \<Rightarrow> real \<Rightarrow> string \<Rightarrow> ABTest" where
  "record_sample test0 model_name model_version metric_value metric_name =
     (let test = ensure_metrics test0
      in if model_name = champion_model test \<and> model_version = champion_version test then
           let test1 = ensure_metrics (test\<lparr>champion_samples := champion_samples test + 1\<rparr>);
               m = get_metrics test1
           in test1\<lparr>metrics := Some (m\<lparr>champion := dict_append (champion m) metric_name metric_value\<rparr>)\<rparr>
         else if model_name = challenger_model test \<and> model_version = challenger_version test then
           let test1 = ensure_metrics (test\<lparr>challenger_samples := challenger_samples test + 1\<rparr>);
               m = get_metrics test1
           in test1\<lparr>metrics := Some (m\<lparr>challenger := dict_append (challenger m) metric_name metric_value\<rparr>)\<rparr>
         else test)"

text \<open>\<open>now\<close> is the reading of \<^verbatim>\<open>datetime.utcnow()\<close> during the call.\<close>

definition complete_test :: "ttest \<Rightarrow> datetime \<Rightarrow> ABTest \<Rightarrow> ABTest" where
  "complete_test ttest_ind now test0 =
     (let test = test0\<lparr>status := COMPLETED, completed_at := Some now\<rparr>
      in case metrics test of
           None \<Rightarrow> test
         | Some m \<Rightarrow>
             let champion_accuracy = dict_get (champion m) ''accuracy'';
                 challenger_accuracy = dict_get (challenger m) ''accuracy''
             in if champion_accuracy \<noteq> [] \<and> challenger_accuracy \<noteq> [] then
                  let champion_mean = np_mean champion_accuracy;
                      challenger_mean = np_mean challenger_accuracy;
                      p_value = ttest_ind champion_accuracy challenger_accuracy
                  in if p_less p_value (significance_level test) then
                       (if challenger_mean > champion_mean
                        then test\<lparr>winner := Some ''challenger''\<rparr>
                        else test\<lparr>winner := Some ''champion''\<rparr>)
                     else test\<lparr>winner := None\<rparr>
                else test)"

text \<open>
  The body of the loop of \<^verbatim>\<open>_check_test_completion\<close> for one metric name: both
  series are long enough, and the p-value of the t-test on them is below the significance
  level.
\<close>

definition metric_significant :: "ttest \<Rightarrow> ABTest \<Rightarrow> string \<Rightarrow> bool" where
  "metric_significant ttest_ind test metric_name =
     (let champion_values = dict_get (champion (get_metrics test)) metric_name;
          challenger_values = dict_get (challenger (get_metrics test)) metric_name
      in if int (length champion_values) \<ge> min_sample_size test
            \<and> int (length challenger_values) \<ge> min_sample_size test
         then p_less (ttest_ind champion_values challenger_values) (significance_level test)
         else False)"

text \<open>
  The loop over the metric names of the champion; it returns at the first metric whose
  test is significant.
\<close>

fun significance_loop :: "ttest \<Rightarrow> datetime \<Rightarrow> ABTest \<Rightarrow> string list \<Rightarrow> ABTest" where
  "significance_loop ttest_ind now test [] = test"
| "significance_loop ttest_ind now test (metric_name # rest) =
     (if metric_significant ttest_ind test metric_name
      then complete_test ttest_ind now (test\<lparr>statistical_significance := True\<rparr>)
      else significance_loop ttest_ind now test rest)"

definition check_test_completion :: "ttest \<Rightarrow> datetime \<Rightarrow> ABTest \<Rightarrow> ABTest" where
  "check_test_completion ttest_ind now test =
     (if champion_samples test < min_sample_size test
         \<or> challenger_samples test < min_sample_size test
      then test
      else
        let duration = now - started_at test
        in if duration > timedelta_days (max_duration_days test)
           then complete_test ttest_ind now test
           else (case metrics test of
                   None \<Rightarrow> test
                 | Some m \<Rightarrow> significance_loop ttest_ind now test (map fst (champion m))))"

definition record_result ::
  "ttest \<Rightarrow> datetime \<Rightarrow> ab_table \<Rightarrow> string \<Rightarrow> string \<Rightarrow> string \<Rightarrow> real \<Rightarrow> string \<Rightarrow> error + ab_table" where
  "record_result ttest_ind now db tid model_name model_version metric_value metric_name =
     (case db tid of
        None \<Rightarrow> Inl (ValueError (''Test '' @ tid @ '' not found''))
      | Some test \<Rightarrow>
          Inr (db(tid \<mapsto> check_test_completion ttest_ind now
                 (record_sample test model_name model_version metric_value metric_name))))"

subsection \<open>pause\_test, resume\_test, cancel\_test\<close>

definition pause_test :: "ab_table \<Rightarrow> string \<Rightarrow> ab_table" where
  "pause_test db tid =
     (case db tid of None \<Rightarrow> db | Some test \<Rightarrow> db(tid \<mapsto> test\<lparr>status := PAUSED\<rparr>))"

definition resume_test :: "ab_table \<Rightarrow> string \<Rightarrow> ab_table" where
  "resume_test db tid =
     (case db tid of
        None \<Rightarrow> db
      | Some test \<Rightarrow> if status test = PAUSED then db(tid \<mapsto> test\<lparr>status := RUNNING\<rparr>) else db)"

definition cancel_test :: "datetime \<Rightarrow> ab_table \<Rightarrow> string \<Rightarrow> ab_table" where
  "cancel_test now db tid =
     (case db tid of
        None \<Rightarrow> db
      | Some test \<Rightarrow> db(tid \<mapsto> test\<lparr>status := CANCELLED, completed_at := Some now\<rparr>))"

text \<open>The status of a test of the table.\<close>

definition status_of :: "ab_table \<Rightarrow> string \<Rightarrow> ABTestStatus option" where
  "status_of db tid = map_option status (db tid)"

text \<open>The row of a test after a call that returns the table, nothing after an error.\<close>

definition row_after :: "error + ab_table \<Rightarrow> string \<Rightarrow> ABTest option" where
  "row_after r tid = (case r of Inl e \<Rightarrow> None | Inr db \<Rightarrow> db tid)"

subsection \<open>Sequences of calls\<close>

text \<open>
  The calls of the service that change an existing test, each with the reading of the
  clock during the call. A call that raises leaves the table as it was.
\<close>

datatype ab_op =
    RecordResult string string string real string
  | PauseTest string
  | ResumeTest string
  | CancelTest string

fun ab_step :: "ttest \<Rightarrow> ab_table \<Rightarrow> datetime \<times> ab_op \<Rightarrow> ab_table" where
  "ab_step tt db (now, RecordResult tid model_name model_version metric_value metric_name) =
     (case record_result tt now db tid model_name model_version metric_value metric_name of
        Inl e \<Rightarrow> db
      | Inr db' \<Rightarrow> db')"
| "ab_step tt db (now, PauseTest tid) = pause_test db tid"
| "ab_step tt db (now, ResumeTest tid) = resume_test db tid"
| "ab_step tt db (now, CancelTest tid) = cancel_test now db tid"

definition ab_run :: "ttest \<Rightarrow> ab_table \<Rightarrow> (datetime \<times> ab_op) list \<Rightarrow> ab_table" where
  "ab_run tt db ops = foldl (ab_step tt) db ops"

text \<open>The fields of a test that \<^verbatim>\<open>route_prediction\<close> reads besides the status.\<close>

definition config :: "ABTest \<Rightarrow> real \<times> string \<times> string \<times> string \<times> string" where
  "config t = (traffic_split t, champion_model t, champion_version t,
               challenger_model t, challenger_version t)"

subsection \<open>Example data\<close>

text \<open>
  The test of the example at the end of the source file, with a minimum sample size of 2,
  started at time 0.
\<close>

definition ocr_test :: ABTest where
  "ocr_test = \<lparr> test_id = ''ABT-1'',
                 test_name = ''OCR v2 vs v3 Comparison'',
                 description = None,
                 champion_model = ''medical-prescription-ocr'',
                 champion_version = ''2'',
                 challenger_model = ''medical-prescription-ocr'',
                 challenger_version = ''3'',
                 traffic_split = 0.5,
                 min_sample_size = 2,
                 max_duration_days = 14,
                 significance_level = 0.05,
                 status = RUNNING,
                 champion_samples = 0,
                 challenger_samples = 0,
                 winner = None,
                 statistical_significance = False,
                 metrics = None,
                 started_at = 0,
                 completed_at = None \<rparr>"

text \<open>The same test after two results of the champion and one of the challenger.\<close>

definition busy_test :: ABTest where
  "busy_test = ocr_test\<lparr> champion_samples := 2, challenger_samples := 1,
       metrics := Some \<lparr> champion = [(''accuracy'', [0.90, 0.91])],
                           challenger = [(''accuracy'', [0.95])] \<rparr> \<rparr>"

text \<open>Stand-ins for the t-test: one that is never defined and one with a fixed p-value.\<close>

definition nan_ttest :: ttest where
  "nan_ttest xs ys = None"



section \<open>JSON values\<close>

datatype json =
    JNull
  | JBool bool
  | JNum real
  | JStr string
  | JList "json list"
  | JDict "(string \<times> json) list"

text \<open>Python's truth value of a JSON value.\<close>

definition truthy :: "json \<Rightarrow> bool" where
  "truthy v =
     (case v of
        JNull \<Rightarrow> False
      | JBool b \<Rightarrow> b
      | JNum r \<Rightarrow> r \<noteq> 0
      | JStr s \<Rightarrow> s \<noteq> []
      | JList xs \<Rightarrow> xs \<noteq> []
      | JDict d \<Rightarrow> d \<noteq> [])"

section \<open>Model monitoring (model\_monitoring\_service.py)\<close>

datatype MetricType = ACCURACY | CONFIDENCE | LATENCY | ERROR_RATE | THROUGHPUT

record ModelPrediction =
  prediction_id :: string
  model_name :: string
  model_version :: string
  model_stage :: string
  input_data_hash :: "string option"
  prediction :: "(string \<times> json) list"
  confidence_score :: "real option"
  latency_ms :: real
  timestamp :: datetime
  ground_truth :: "(string \<times> json) list option"
  is_correct :: "(string \<times> bool) list option"
  prescription_id :: "int option"
  session_id :: "string option"

text \<open>
  A row of \<^verbatim>\<open>model_metrics\<close>. The primary key \<^verbatim>\<open>id\<close> is assigned by the database
  and is the position of the row in the table; no other column is unique.
\<close>

record ModelMetric =
  model_name :: string
  model_version :: string
  window_start :: datetime
  window_end :: datetime
  window_size_minutes :: int
  metric_type :: MetricType
  metric_value :: real
  min_value :: "real option"
  max_value :: "real option"
  std_dev :: "real option"
  percentile_95 :: "real option"
  sample_count :: int
  created_at :: datetime

record monitoring_db =
  model_predictions :: "ModelPrediction list"
  model_metrics :: "ModelMetric list"

subsection \<open>Library functions\<close>

text \<open>
  Python's \<^verbatim>\<open>max(xs, key=f)\<close> and \<^verbatim>\<open>min\<close> on a non-empty sequence: the first
  element is the candidate, and a later one replaces it only when it is strictly better.
\<close>

fun py_max_key :: "('a \<Rightarrow> 'k::linorder) \<Rightarrow> 'a \<Rightarrow> 'a list \<Rightarrow> 'a" where
  "py_max_key key best [] = best"
| "py_max_key key best (x # xs) =
     (if key x > key best then py_max_key key x xs else py_max_key key best xs)"

definition py_min :: "real \<Rightarrow> real list \<Rightarrow> real" where
  "py_min x xs = fold min xs x"

definition py_max :: "real \<Rightarrow> real list \<Rightarrow> real" where
  "py_max x xs = fold max xs x"

text \<open>\<^verbatim>\<open>statistics.mean\<close> and \<^verbatim>\<open>statistics.stdev\<close> (the sample standard deviation).\<close>

definition statistics_mean :: "real list \<Rightarrow> real" where
  "statistics_mean xs = sum_list xs / real (length xs)"

definition statistics_stdev :: "real list \<Rightarrow> real" where
  "statistics_stdev xs =
     (let m = statistics_mean xs
      in sqrt (sum_list (map (\<lambda>x. (x - m)\<^sup>2) xs) / real (length xs - 1)))"

text \<open>\<^verbatim>\<open>numpy.percentile(xs, q)\<close> with its default linear interpolation, \<open>xs\<close> non-empty.\<close>

definition np_percentile :: "real list \<Rightarrow> real \<Rightarrow> real" where
  "np_percentile xs q =
     (let s = sort xs;
          n = length s;
          pos = q / 100 * real (n - 1);
          lo = nat \<lfloor>pos\<rfloor>;
          hi = min (lo + 1) (n - 1)
      in s ! lo + (pos - real lo) * (s ! hi - s ! lo))"

subsection \<open>\_group\_into\_windows\<close>

text \<open>
  The window start of a timestamp:
  \<^verbatim>\<open>ts.replace(minute=(ts.minute // w) * w, second=0, microsecond=0)\<close>.
  The floor division raises when \<open>w\<close> is 0, and \<^verbatim>\<open>replace\<close> raises when the new
  minute is not one of 0 to 59. Year, month, day and hour are kept.
\<close>

definition minute_of :: "datetime \<Rightarrow> int" where
  "minute_of ts = (ts div 60000000) mod 60"

definition window_start_of :: "datetime \<Rightarrow> int \<Rightarrow> error + datetime" where
  "window_start_of ts w =
     (if w = 0 then Inl ZeroDivisionError
      else
        let new_minute = (minute_of ts div w) * w
        in if new_minute < 0 \<or> new_minute > 59
           then Inl (ValueError ''minute must be in 0..59'')
           else Inr (ts - ts mod 3600000000 + new_minute * 60000000))"

fun group_loop ::
  "ModelPrediction list \<Rightarrow> int \<Rightarrow> (datetime \<times> ModelPrediction list) list
     \<Rightarrow> error + (datetime \<times> ModelPrediction list) list" where
  "group_loop [] w windows = Inr windows"
| "group_loop (pred # rest) w windows =
     (case window_start_of (timestamp pred) w of
        Inl e \<Rightarrow> Inl e
      | Inr start \<Rightarrow> group_loop rest w (dict_append windows start pred))"

definition group_into_windows ::
  "ModelPrediction list \<Rightarrow> int \<Rightarrow> error + (datetime \<times> ModelPrediction list) list" where
  "group_into_windows predictions w = group_loop predictions w []"

subsection \<open>\_calculate\_window\_metrics\<close>

text \<open>
  The most common model version of a window:
  \<^verbatim>\<open>max(set(p.model_version for p in predictions), key=...)\<close>. The order in which
  Python iterates over a set of strings is not specified; \<open>set_order vs\<close> is the list of
  the distinct elements of \<open>vs\<close> in that order, a parameter of the model.
\<close>

definition most_common_version ::
  "(string list \<Rightarrow> string list) \<Rightarrow> ModelPrediction list \<Rightarrow> error + string" where
  "most_common_version set_order predictions =
     (let count = (\<lambda>v. length (filter (\<lambda>p. ModelPrediction.model_version p = v) predictions))
      in case set_order (map ModelPrediction.model_version predictions) of
           [] \<Rightarrow> Inl (ValueError ''max() arg is an empty sequence'')
         | v # vs \<Rightarrow> Inr (py_max_key count v vs))"

text \<open>The share of correct fields of a prediction with ground truth.\<close>

definition correct_share :: "ModelPrediction \<Rightarrow> real" where
  "correct_share p =
     (case is_correct p of
        None \<Rightarrow> 0
      | Some per_field \<Rightarrow>
          let total_fields = length per_field;
              correct_fields = length (filter snd per_field)
          in if total_fields > 0 then real correct_fields / real total_fields else 0)"

definition has_truth :: "ModelPrediction \<Rightarrow> bool" where
  "has_truth p =
     ((case ground_truth p of None \<Rightarrow> False | Some g \<Rightarrow> g \<noteq> [])
      \<and> (case is_correct p of None \<Rightarrow> False | Some c \<Rightarrow> c \<noteq> []))"

text \<open>
  The statistics of a non-empty list of values, as the constructor calls of the source
  compute them; \<open>with_p95\<close> is false for the accuracy metric, which stores no percentile.
\<close>

definition stat_metric ::
  "datetime \<Rightarrow> string \<Rightarrow> string \<Rightarrow> datetime \<Rightarrow> datetime \<Rightarrow> int \<Rightarrow> MetricType \<Rightarrow> bool
     \<Rightarrow> real \<Rightarrow> real list \<Rightarrow> ModelMetric" where
  "stat_metric now name version w_start w_end w kind with_p95 x xs =
     \<lparr> ModelMetric.model_name = name,
       ModelMetric.model_version = version,
       window_start = w_start,
       window_end = w_end,
       window_size_minutes = w,
       metric_type = kind,
       metric_value = statistics_mean (x # xs),
       min_value = Some (py_min x xs),
       max_value = Some (py_max x xs),
       std_dev = Some (if length (x # xs) > 1 then statistics_stdev (x # xs) else 0),
       percentile_95 = (if with_p95 then Some (np_percentile (x # xs) 95) else None),
       sample_count = int (length (x # xs)),
       created_at = now \<rparr>"

definition calculate_window_metrics ::
  "(string list \<Rightarrow> string list) \<Rightarrow> datetime \<Rightarrow> string \<Rightarrow> ModelPrediction list
     \<Rightarrow> datetime \<Rightarrow> datetime \<Rightarrow> int \<Rightarrow> error + ModelMetric list" where
  "calculate_window_metrics set_order now name predictions w_start w_end w =
     (if predictions = [] then Inr []
      else
        case most_common_version set_order predictions of
          Inl e \<Rightarrow> Inl e
        | Inr version \<Rightarrow>
            let confidences = List.map_filter confidence_score predictions;
                metrics1 = (case confidences of
                              [] \<Rightarrow> []
                            | c # cs \<Rightarrow> [stat_metric now name version w_start w_end w CONFIDENCE True c cs]);
                latencies = map latency_ms predictions;
                metrics2 = (case latencies of
                              [] \<Rightarrow> []
                            | l # ls \<Rightarrow> [stat_metric now name version w_start w_end w LATENCY True l ls]);
                correct_counts = map correct_share (filter has_truth predictions);
                metrics3 = (case correct_counts of
                              [] \<Rightarrow> []
                            | a # as \<Rightarrow> [stat_metric now name version w_start w_end w ACCURACY False a as])
            in if w = 0 then Inl ZeroDivisionError
               else
                 let throughput = real (length predictions) / (real_of_int w / 60)
                 in Inr (metrics1 @ metrics2 @ metrics3 @
                      [\<lparr> ModelMetric.model_name = name,
                         ModelMetric.model_version = version,
                         window_start = w_start,
                         window_end = w_end,
                         window_size_minutes = w,
                         metric_type = THROUGHPUT,
                         metric_value = throughput,
                         min_value = None,
                         max_value = None,
                         std_dev = None,
                         percentile_95 = None,
                         sample_count = int (length predictions),
                         created_at = now \<rparr>]))"

subsection \<open>calculate\_aggregated\_metrics\<close>

text \<open>The loop over the windows; it extends the list of metrics window by window.\<close>

fun windows_loop ::
  "(string list \<Rightarrow> string list) \<Rightarrow> datetime \<Rightarrow> string \<Rightarrow> int
     \<Rightarrow> (datetime \<times> ModelPrediction list) list \<Rightarrow> ModelMetric list \<Rightarrow> error + ModelMetric list" where
  "windows_loop set_order now name w [] collected = Inr collected"
| "windows_loop set_order now name w ((w_start, window_preds) # rest) collected =
     (let w_end = w_start + timedelta_minutes w
      in case calculate_window_metrics set_order now name window_preds w_start w_end w of
           Inl e \<Rightarrow> Inl e
         | Inr ms \<Rightarrow> windows_loop set_order now name w rest (collected @ ms))"

text \<open>
  The query of the predictions of a model since \<open>start_time\<close>, ordered by timestamp
  (rows with equal timestamps in the order of the table).
\<close>

definition predictions_since :: "ModelPrediction list \<Rightarrow> string \<Rightarrow> datetime \<Rightarrow> ModelPrediction list" where
  "predictions_since table name start_time =
     sort_key timestamp
       (filter (\<lambda>p. ModelPrediction.model_name p = name \<and> timestamp p \<ge> start_time) table)"

text \<open>
  \<open>now\<close> is the reading of \<^verbatim>\<open>datetime.utcnow()\<close> during the call. Every metric is
  added to the session and committed; an exception before that leaves the tables as they
  were.
\<close>

definition calculate_aggregated_metrics ::
  "(string list \<Rightarrow> string list) \<Rightarrow> datetime \<Rightarrow> monitoring_db \<Rightarrow> string \<Rightarrow> int \<Rightarrow> int
     \<Rightarrow> error + (monitoring_db \<times> ModelMetric list)" where
  "calculate_aggregated_metrics set_order now db name w lookback_hours =
     (let start_time = now - timedelta_hours lookback_hours;
          predictions = predictions_since (model_predictions db) name start_time
      in if predictions = [] then Inr (db, [])
         else
           case group_into_windows predictions w of
             Inl e \<Rightarrow> Inl e
           | Inr windows \<Rightarrow>
               (case windows_loop set_order now name w windows [] of
                  Inl e \<Rightarrow> Inl e
                | Inr new_metrics \<Rightarrow>
                    Inr (db\<lparr>model_metrics := model_metrics db @ new_metrics\<rparr>, new_metrics)))"

subsection \<open>Example data\<close>

text \<open>A prediction of the OCR model at a given time, and the table of two of them.\<close>

definition pred_at :: "datetime \<Rightarrow> ModelPrediction" where
  "pred_at ts =
     \<lparr> prediction_id = ''PRED-1'',
       ModelPrediction.model_name = ''medical-prescription-ocr'',
       ModelPrediction.model_version = ''2'',
       model_stage = ''Production'',
       input_data_hash = None,
       prediction = [],
       confidence_score = Some 0.9,
       latency_ms = 450,
       timestamp = ts,
       ground_truth = None,
       is_correct = None,
       prescription_id = None,
       session_id = None \<rparr>"

text \<open>00:30 and 01:30 of the same day, in microseconds.\<close>

definition half_past_midnight :: datetime where
  "half_past_midnight = 1800000000"

definition half_past_one :: datetime where
  "half_past_one = 5400000000"

definition one_prediction_db :: monitoring_db where
  "one_prediction_db = \<lparr> model_predictions = [pred_at half_past_midnight], model_metrics = [] \<rparr>"

text \<open>The tables after a run of the aggregation; an exception leaves them as they were.\<close>

definition run_aggregation ::
  "(string list \<Rightarrow> string list) \<Rightarrow> datetime \<Rightarrow> monitoring_db \<Rightarrow> string \<Rightarrow> int \<Rightarrow> int \<Rightarrow> monitoring_db" where
  "run_aggregation set_order now db name w lookback_hours =
     (case calculate_aggregated_metrics set_order now db name w lookback_hours of
        Inl e \<Rightarrow> db
      | Inr (db', new_metrics) \<Rightarrow> db')"

text \<open>The key of a row of \<^verbatim>\<open>model_metrics\<close>: model, version, window and metric.\<close>

definition metric_key :: "ModelMetric \<Rightarrow> string \<times> string \<times> datetime \<times> int \<times> MetricType" where
  "metric_key m =
     (ModelMetric.model_name m, ModelMetric.model_version m, window_start m,
      window_size_minutes m, metric_type m)"

text \<open>The rows of a run with the creation time of another run.\<close>

definition restamp :: "datetime \<Rightarrow> ModelMetric list \<Rightarrow> ModelMetric list" where
  "restamp now ms = map (\<lambda>m. m\<lparr>created_at := now\<rparr>) ms"

text \<open>A row without its model version and its creation time.\<close>

definition unversioned :: "ModelMetric \<Rightarrow> ModelMetric" where
  "unversioned m = m\<lparr>ModelMetric.model_version := [], created_at := 0\<rparr>"

text \<open>
  The three rows that the aggregation computes at time \<open>now\<close> for the table of one
  prediction, with windows of 60 minutes.
\<close>

definition ocr_window_metrics :: "datetime \<Rightarrow> ModelMetric list" where
  "ocr_window_metrics now =
     [\<lparr> ModelMetric.model_name = ''medical-prescription-ocr'', ModelMetric.model_version = ''2'',
        window_start = 0, window_end = 3600000000, window_size_minutes = 60,
        metric_type = CONFIDENCE, metric_value = 0.9,
        min_value = Some 0.9, max_value = Some 0.9, std_dev = Some 0,
        percentile_95 = Some 0.9, sample_count = 1, created_at = now \<rparr>,
      \<lparr> ModelMetric.model_name = ''medical-prescription-ocr'', ModelMetric.model_version = ''2'',
        window_start = 0, window_end = 3600000000, window_size_minutes = 60,
        metric_type = LATENCY, metric_value = 450,
        min_value = Some 450, max_value = Some 450, std_dev = Some 0,
        percentile_95 = Some 450, sample_count = 1, created_at = now \<rparr>,
      \<lparr> ModelMetric.model_name = ''medical-prescription-ocr'', ModelMetric.model_version = ''2'',
        window_start = 0, window_end = 3600000000, window_size_minutes = 60,
        metric_type = THROUGHPUT, metric_value = 1,
        min_value = None, max_value = None, std_dev = None,
        percentile_95 = None, sample_count = 1, created_at = now \<rparr>]"

section \<open>Drift detection (drift\_detection\_service.py)\<close>

datatype DriftType = DATA_DRIFT | PREDICTION_DRIFT | CONCEPT_DRIFT

text \<open>
  The JSON descriptor of a period; the two ISO strings of the source are the datetimes they
  print.
\<close>

record period =
  period_start :: datetime
  period_end :: datetime
  samples :: "int option"
  mean_confidence :: real
  std_confidence :: "real option"

record DriftDetection =
  detection_id :: string
  model_name :: string
  model_version :: string
  drift_type :: DriftType
  drift_score :: real
  threshold :: real
  test_statistic :: "real option"
  p_value :: "real option"
  affected_features :: "string list option"
  baseline_period :: "period option"
  current_period :: "period option"
  detected_at :: datetime

definition DATA_DRIFT_THRESHOLD :: real where
  "DATA_DRIFT_THRESHOLD = 0.05"

definition PREDICTION_DRIFT_THRESHOLD :: real where
  "PREDICTION_DRIFT_THRESHOLD = 0.10"

definition MIN_SAMPLES :: nat where
  "MIN_SAMPLES = 100"

subsection \<open>Library functions\<close>

text \<open>\<^verbatim>\<open>numpy.std\<close>, the population standard deviation.\<close>

definition np_std :: "real list \<Rightarrow> real" where
  "np_std xs = (let m = np_mean xs in sqrt (np_mean (map (\<lambda>x. (x - m)\<^sup>2) xs)))"

text \<open>\<^verbatim>\<open>numpy.linspace(a, b, n)\<close> for \<open>n\<close> of at least 2.\<close>

definition np_linspace :: "real \<Rightarrow> real \<Rightarrow> nat \<Rightarrow> real list" where
  "np_linspace a b n = map (\<lambda>i. a + real i * ((b - a) / real (n - 1))) [0..<n]"

text \<open>
  \<^verbatim>\<open>numpy.histogram(xs, bins=edges)\<close>: the count of each bin; a bin holds its left edge
  and not its right edge, except the last bin, which holds both.
\<close>

definition np_histogram :: "real list \<Rightarrow> real list \<Rightarrow> nat list" where
  "np_histogram xs edges =
     map (\<lambda>i. length (filter (\<lambda>x. edges ! i \<le> x
                  \<and> (if i + 2 = length edges then x \<le> edges ! (i + 1) else x < edges ! (i + 1))) xs))
       [0..<length edges - 1]"

text \<open>
  \<^verbatim>\<open>scipy.stats.ks_2samp\<close> is a parameter of the model: the statistic and the p-value, or
  the exception it raises.
\<close>

type_synonym kstest = "real list \<Rightarrow> real list \<Rightarrow> error + (real \<times> real)"

subsection \<open>\_calculate\_psi\<close>

definition calculate_psi :: "real list \<Rightarrow> real list \<Rightarrow> nat \<Rightarrow> error + real" where
  "calculate_psi baseline current bins =
     (case baseline of
        [] \<Rightarrow> Inl (ValueError ''min() arg is an empty sequence'')
      | b # bs \<Rightarrow>
         (case current of
            [] \<Rightarrow> Inl (ValueError ''min() arg is an empty sequence'')
          | c # cs \<Rightarrow>
              let min_val = min (py_min b bs) (py_min c cs);
                  max_val = max (py_max b bs) (py_max c cs);
                  bin_edges = np_linspace min_val max_val (bins + 1);
                  baseline_hist = np_histogram baseline bin_edges;
                  current_hist = np_histogram current bin_edges;
                  baseline_pct = map (\<lambda>n. real n / real (length baseline)) baseline_hist;
                  current_pct = map (\<lambda>n. real n / real (length current)) current_hist;
                  baseline_pct1 = map (\<lambda>p. if p = 0 then 0.0001 else p) baseline_pct;
                  current_pct1 = map (\<lambda>p. if p = 0 then 0.0001 else p) current_pct;
                  psi = sum_list (map2 (\<lambda>cp bp. (cp - bp) * ln (cp / bp)) current_pct1 baseline_pct1)
              in Inr \<bar>psi\<bar>))"

subsection \<open>detect\_data\_drift\<close>

text \<open>The query of the predictions of a model in a half-open range of time.\<close>

definition predictions_between ::
  "ModelPrediction list \<Rightarrow> string \<Rightarrow> datetime \<Rightarrow> datetime \<Rightarrow> ModelPrediction list" where
  "predictions_between table name t_start t_end =
     filter (\<lambda>p. ModelPrediction.model_name p = name \<and> timestamp p \<ge> t_start \<and> timestamp p < t_end)
       table"

text \<open>\<^verbatim>\<open>[p.confidence_score for p in preds if p.confidence_score]\<close>: neither None nor 0.\<close>

definition confidences_of :: "ModelPrediction list \<Rightarrow> real list" where
  "confidences_of preds =
     List.map_filter
       (\<lambda>p. case confidence_score p of None \<Rightarrow> None | Some c \<Rightarrow> if c = 0 then None else Some c)
       preds"

text \<open>
  \<^verbatim>\<open>db.session.add(detection)\<close> and the commit; the column \<^verbatim>\<open>detection_id\<close> is unique.
\<close>

definition add_detection ::
  "DriftDetection list \<Rightarrow> DriftDetection \<Rightarrow> error + (DriftDetection list \<times> DriftDetection option)" where
  "add_detection drifts detection =
     (if detection_id detection \<in> detection_id ` set drifts then Inl IntegrityError
      else Inr (drifts @ [detection], Some detection))"

text \<open>
  \<open>new_id\<close> is the value of \<^verbatim>\<open>_generate_detection_id()\<close> and \<open>now\<close> the reading of the
  clock that the column default of \<^verbatim>\<open>detected_at\<close> takes. The result is the table of
  detections after the call and the value the call returns.
\<close>

definition detect_data_drift ::
  "string \<Rightarrow> datetime \<Rightarrow> ModelPrediction list \<Rightarrow> DriftDetection list \<Rightarrow> string \<Rightarrow> string
     \<Rightarrow> datetime \<Rightarrow> datetime \<Rightarrow> datetime \<Rightarrow> datetime
     \<Rightarrow> error + (DriftDetection list \<times> DriftDetection option)" where
  "detect_data_drift new_id now table drifts name version
       baseline_start baseline_end current_start current_end =
     (let baseline_preds = predictions_between table name baseline_start baseline_end;
          current_preds = predictions_between table name current_start current_end
      in if length baseline_preds < MIN_SAMPLES \<or> length current_preds < MIN_SAMPLES
         then Inr (drifts, None)
         else
           let baseline_confidences = confidences_of baseline_preds;
               current_confidences = confidences_of current_preds
           in case calculate_psi baseline_confidences current_confidences 10 of
                Inl e \<Rightarrow> Inl e
              | Inr psi_score \<Rightarrow>
                  if psi_score > DATA_DRIFT_THRESHOLD then
                    add_detection drifts
                      \<lparr> detection_id = new_id,
                        DriftDetection.model_name = name,
                        DriftDetection.model_version = version,
                        drift_type = DATA_DRIFT,
                        drift_score = psi_score,
                        threshold = DATA_DRIFT_THRESHOLD,
                        test_statistic = None,
                        p_value = None,
                        affected_features = Some [''confidence_distribution''],
                        baseline_period = Some
                          \<lparr> period_start = baseline_start, period_end = baseline_end,
                            samples = Some (int (length baseline_preds)),
                            mean_confidence = np_mean baseline_confidences,
                            std_confidence = None \<rparr>,
                        current_period = Some
                          \<lparr> period_start = current_start, period_end = current_end,
                            samples = Some (int (length current_preds)),
                            mean_confidence = np_mean current_confidences,
                            std_confidence = None \<rparr>,
                        detected_at = now \<rparr>
                  else Inr (drifts, None))"

subsection \<open>detect\_prediction\_drift\<close>

text \<open>\<^verbatim>\<open>timedelta(days=lookback_days / 2)\<close> for an integer number of days.\<close>

definition timedelta_half_days :: "int \<Rightarrow> timedelta" where
  "timedelta_half_days d = d * 43200000000"

definition detect_prediction_drift ::
  "kstest \<Rightarrow> string \<Rightarrow> datetime \<Rightarrow> ModelPrediction list \<Rightarrow> DriftDetection list \<Rightarrow> string \<Rightarrow> string
     \<Rightarrow> int \<Rightarrow> error + (DriftDetection list \<times> DriftDetection option)" where
  "detect_prediction_drift ks_2samp new_id now table drifts name version lookback_days =
     (let end_time = now;
          mid_time = end_time - timedelta_half_days lookback_days;
          start_time = end_time - timedelta_days lookback_days;
          early_preds = predictions_between table name start_time mid_time;
          recent_preds = predictions_between table name mid_time end_time
      in if length early_preds < MIN_SAMPLES \<or> length recent_preds < MIN_SAMPLES
         then Inr (drifts, None)
         else
           let early_confidences = confidences_of early_preds;
               recent_confidences = confidences_of recent_preds
           in case ks_2samp early_confidences recent_confidences of
                Inl e \<Rightarrow> Inl e
              | Inr (statistic, p) \<Rightarrow>
                  if p < 0.05 then
                    let score = statistic
                    in if score > PREDICTION_DRIFT_THRESHOLD then
                         add_detection drifts
                           \<lparr> detection_id = new_id,
                             DriftDetection.model_name = name,
                             DriftDetection.model_version = version,
                             drift_type = PREDICTION_DRIFT,
                             drift_score = score,
                             threshold = PREDICTION_DRIFT_THRESHOLD,
                             test_statistic = Some statistic,
                             p_value = Some p,
                             affected_features = None,
                             baseline_period = Some
                               \<lparr> period_start = start_time, period_end = mid_time,
                                 samples = None,
                                 mean_confidence = np_mean early_confidences,
                                 std_confidence = Some (np_std early_confidences) \<rparr>,
                             current_period = Some
                               \<lparr> period_start = mid_time, period_end = end_time,
                                 samples = None,
                                 mean_confidence = np_mean recent_confidences,
                                 std_confidence = Some (np_std recent_confidences) \<rparr>,
                             detected_at = now \<rparr>
                       else Inr (drifts, None)
                  else Inr (drifts, None))"

subsection \<open>Example data\<close>

text \<open>A stand-in for the Kolmogorov-Smirnov test with a fixed statistic and p-value.\<close>

definition fixed_ks :: "real \<Rightarrow> real \<Rightarrow> kstest" where
  "fixed_ks statistic p xs ys = Inr (statistic, p)"

section \<open>Alerts (production\_monitoring.py)\<close>

text \<open>
  An alert rule is a dictionary with the keys \<^verbatim>\<open>metric\<close>, \<^verbatim>\<open>threshold\<close>,
  \<^verbatim>\<open>comparison\<close>, \<^verbatim>\<open>severity\<close> and \<^verbatim>\<open>cooldown_minutes\<close>. The threshold of a rule is a
  number or a boolean.
\<close>

datatype rule_value = RNum real | RBool bool

record alert_rule =
  metric :: string
  threshold :: rule_value
  comparison :: string
  severity :: string
  cooldown_minutes :: int

record Alert =
  alert_id :: string
  severity :: string
  title :: string
  description :: string
  metric_name :: string
  current_value :: real
  threshold_value :: real
  timestamp :: datetime
  acknowledged :: bool

text \<open>
  The state of an \<^verbatim>\<open>AlertManager\<close>: \<^verbatim>\<open>active_alerts\<close> is a dictionary from the alert
  id to the alert, \<^verbatim>\<open>alert_rules\<close> a dictionary from the rule name to the rule.
\<close>

record alert_manager =
  active_alerts :: "(string \<times> Alert) list"
  alert_history :: "Alert list"
  alert_rules :: "(string \<times> alert_rule) list"

definition initialize_alert_rules :: "(string \<times> alert_rule) list" where
  "initialize_alert_rules =
     [(''high_error_rate'',
         \<lparr> metric = ''error_rate'', alert_rule.threshold = RNum 0.05, comparison = ''greater'',
           alert_rule.severity = ''high'', cooldown_minutes = 15 \<rparr>),
      (''slow_response_time'',
         \<lparr> metric = ''response_time.p95'', alert_rule.threshold = RNum 2000, comparison = ''greater'',
           alert_rule.severity = ''medium'', cooldown_minutes = 10 \<rparr>),
      (''low_confidence'',
         \<lparr> metric = ''confidence.mean'', alert_rule.threshold = RNum 0.75, comparison = ''less'',
           alert_rule.severity = ''medium'', cooldown_minutes = 30 \<rparr>),
      (''drift_detected'',
         \<lparr> metric = ''drift.detected'', alert_rule.threshold = RBool True, comparison = ''equals'',
           alert_rule.severity = ''high'', cooldown_minutes = 60 \<rparr>)]"

text \<open>The manager that \<^verbatim>\<open>__init__\<close> builds.\<close>

definition init_alert_manager :: alert_manager where
  "init_alert_manager =
     \<lparr> active_alerts = [], alert_history = [], alert_rules = initialize_alert_rules \<rparr>"

subsection \<open>\_check\_threshold\<close>

text \<open>\<^verbatim>\<open>s.split(".")\<close>\<close>

fun split_dot :: "string \<Rightarrow> string list" where
  "split_dot [] = [[]]"
| "split_dot (c # cs) =
     (if c = CHR ''.'' then [] # split_dot cs
      else (case split_dot cs of [] \<Rightarrow> [[c]] | w # ws \<Rightarrow> (c # w) # ws))"

text \<open>A number or a boolean as a number, as Python compares and formats it.\<close>

definition num_of :: "json \<Rightarrow> real option" where
  "num_of v =
     (case v of JNum r \<Rightarrow> Some r | JBool b \<Rightarrow> Some (if b then 1 else 0) | _ \<Rightarrow> None)"

definition rule_num :: "rule_value \<Rightarrow> real" where
  "rule_num v = (case v of RNum r \<Rightarrow> r | RBool b \<Rightarrow> (if b then 1 else 0))"

text \<open>
  The loop that follows the metric path into the nested dictionaries; \<open>None\<close> is the
  \<^verbatim>\<open>return False\<close> of the source.
\<close>

fun navigate :: "json \<Rightarrow> string list \<Rightarrow> json option" where
  "navigate v [] = Some v"
| "navigate v (key # rest) =
     (case v of
        JDict d \<Rightarrow> (case map_of d key of None \<Rightarrow> None | Some v' \<Rightarrow> navigate v' rest)
      | _ \<Rightarrow> None)"

text \<open>
  The comparison of the value with the threshold. Python orders numbers and booleans and
  raises a TypeError when the value is of another type; equality never raises.
\<close>

definition compare_values :: "string \<Rightarrow> json \<Rightarrow> rule_value \<Rightarrow> error + bool" where
  "compare_values cmp v th =
     (if cmp = ''greater'' then
        (case num_of v of None \<Rightarrow> Inl TypeError | Some x \<Rightarrow> Inr (x > rule_num th))
      else if cmp = ''less'' then
        (case num_of v of None \<Rightarrow> Inl TypeError | Some x \<Rightarrow> Inr (x < rule_num th))
      else if cmp = ''equals'' then
        Inr (case num_of v of None \<Rightarrow> False | Some x \<Rightarrow> x = rule_num th)
      else Inr False)"

definition check_threshold ::
  "alert_rule \<Rightarrow> json \<Rightarrow> (string \<times> json) list option \<Rightarrow> error + bool" where
  "check_threshold rule metrics_now drift_result =
     (let metric_path = split_dot (metric rule)
      in if take 1 metric_path = [''drift''] then
           (case drift_result of
              None \<Rightarrow> Inr False
            | Some d \<Rightarrow>
                if d = [] then Inr False
                else Inr (truthy (case map_of d ''drift_detected'' of
                                    None \<Rightarrow> JBool False
                                  | Some v \<Rightarrow> v)))
         else
           (case navigate metrics_now metric_path of
              None \<Rightarrow> Inr False
            | Some v \<Rightarrow> compare_values (comparison rule) v (alert_rule.threshold rule)))"

subsection \<open>\_create\_alert\<close>

text \<open>
  The loop of \<^verbatim>\<open>_create_alert\<close> over the metric path:
  \<^verbatim>\<open>if isinstance(current_value, dict): current_value = current_value.get(key, 0)\<close>.
\<close>

fun current_value_of :: "json \<Rightarrow> string list \<Rightarrow> json" where
  "current_value_of v [] = v"
| "current_value_of v (key # rest) =
     (case v of
        JDict d \<Rightarrow> current_value_of (case map_of d key of None \<Rightarrow> JNum 0 | Some v' \<Rightarrow> v') rest
      | _ \<Rightarrow> current_value_of v rest)"

definition generate_alert_title :: "string \<Rightarrow> string" where
  "generate_alert_title rule_name =
     (if rule_name = ''high_error_rate'' then ''High Error Rate Detected''
      else if rule_name = ''slow_response_time'' then ''Slow Response Times''
      else if rule_name = ''low_confidence'' then ''Low Model Confidence''
      else if rule_name = ''drift_detected'' then ''Model Performance Drift Detected''
      else ''Alert: '' @ rule_name)"

text \<open>
  \<open>fmt spec x\<close> is Python's \<^verbatim>\<open>format(x, spec)\<close> for a number, a parameter of the model.
  The source builds the dictionary of all four descriptions before it looks the rule up,
  so every format is applied to the current value: a string raises a ValueError, a value
  that is neither a number nor a boolean a TypeError.
\<close>

definition generate_alert_description ::
  "(string \<Rightarrow> real \<Rightarrow> string) \<Rightarrow> string \<Rightarrow> json \<Rightarrow> rule_value \<Rightarrow> error + string" where
  "generate_alert_description fmt rule_name cv th =
     (case num_of cv of
        None \<Rightarrow> (case cv of
                   JStr s \<Rightarrow> Inl (ValueError ''Unknown format code'')
                 | _ \<Rightarrow> Inl TypeError)
      | Some x \<Rightarrow>
          let t = rule_num th
          in Inr (if rule_name = ''high_error_rate'' then
                    ''Error rate ('' @ fmt ''.2%'' x @ '') exceeds threshold ('' @ fmt ''.2%'' t @ '')''
                  else if rule_name = ''slow_response_time'' then
                    ''P95 response time ('' @ fmt ''.0f'' x @ ''ms) exceeds threshold (''
                      @ fmt ''.0f'' t @ ''ms)''
                  else if rule_name = ''low_confidence'' then
                    ''Average confidence ('' @ fmt ''.2f'' x @ '') below threshold (''
                      @ fmt ''.2f'' t @ '')''
                  else if rule_name = ''drift_detected'' then
                    ''Model performance has drifted from baseline - retraining recommended''
                  else ''Metric '' @ rule_name @ '' threshold exceeded''))"

text \<open>
  \<open>strftime t\<close> is \<^verbatim>\<open>t.strftime('%Y%m%d%H%M%S')\<close>, a parameter of the model, and
  \<open>now\<close> the reading of the clock during the call of \<^verbatim>\<open>evaluate_alerts\<close>.
\<close>

definition create_alert ::
  "(datetime \<Rightarrow> string) \<Rightarrow> (string \<Rightarrow> real \<Rightarrow> string) \<Rightarrow> datetime \<Rightarrow> string \<Rightarrow> alert_rule \<Rightarrow> json
     \<Rightarrow> error + Alert" where
  "create_alert strftime fmt now rule_name rule metrics_now =
     (let new_id = rule_name @ ''_'' @ strftime now;
          metric_path = split_dot (metric rule);
          cv = current_value_of metrics_now metric_path
      in case generate_alert_description fmt rule_name cv (alert_rule.threshold rule) of
           Inl e \<Rightarrow> Inl e
         | Inr text \<Rightarrow>
             Inr \<lparr> alert_id = new_id,
                   Alert.severity = alert_rule.severity rule,
                   title = generate_alert_title rule_name,
                   Alert.description = text,
                   metric_name = metric rule,
                   current_value = (case num_of cv of None \<Rightarrow> 0 | Some x \<Rightarrow> x),
                   threshold_value = rule_num (alert_rule.threshold rule),
                   Alert.timestamp = now,
                   acknowledged = False \<rparr>)"

subsection \<open>\_is\_in\_cooldown\<close>

definition is_in_cooldown :: "datetime \<Rightarrow> alert_manager \<Rightarrow> string \<Rightarrow> error + bool" where
  "is_in_cooldown now mgr rule_name =
     (case map_of (alert_rules mgr) rule_name of
        None \<Rightarrow> Inl KeyError
      | Some rule \<Rightarrow>
          let recent_alerts = filter (\<lambda>a. sublist rule_name (alert_id a)) (alert_history mgr)
          in case recent_alerts of
               [] \<Rightarrow> Inr False
             | a # as \<Rightarrow>
                 let most_recent = py_max_key Alert.timestamp a as;
                     time_since_alert = now - Alert.timestamp most_recent
                 in Inr (time_since_alert < timedelta_minutes (cooldown_minutes rule)))"

subsection \<open>evaluate\_alerts\<close>

text \<open>
  The loop over the rules. An exception ends the call; the alerts created before it stay in
  the manager.
\<close>

fun evaluate_loop ::
  "(datetime \<Rightarrow> string) \<Rightarrow> (string \<Rightarrow> real \<Rightarrow> string) \<Rightarrow> datetime \<Rightarrow> json
     \<Rightarrow> (string \<times> json) list option \<Rightarrow> (string \<times> alert_rule) list \<Rightarrow> alert_manager \<Rightarrow> Alert list
     \<Rightarrow> alert_manager \<times> (error + Alert list)" where
  "evaluate_loop strftime fmt now metrics_now drift_result [] mgr new_alerts = (mgr, Inr new_alerts)"
| "evaluate_loop strftime fmt now metrics_now drift_result ((rule_name, rule) # rest) mgr new_alerts =
     (case is_in_cooldown now mgr rule_name of
        Inl e \<Rightarrow> (mgr, Inl e)
      | Inr cooling \<Rightarrow>
          if cooling then evaluate_loop strftime fmt now metrics_now drift_result rest mgr new_alerts
          else
            (case check_threshold rule metrics_now drift_result of
               Inl e \<Rightarrow> (mgr, Inl e)
             | Inr exceeded \<Rightarrow>
                 if exceeded then
                   (case create_alert strftime fmt now rule_name rule metrics_now of
                      Inl e \<Rightarrow> (mgr, Inl e)
                    | Inr alert \<Rightarrow>
                        evaluate_loop strftime fmt now metrics_now drift_result rest
                          (mgr\<lparr> active_alerts := AList.update (alert_id alert) alert (active_alerts mgr),
                                alert_history := alert_history mgr @ [alert] \<rparr>)
                          (new_alerts @ [alert]))
                 else evaluate_loop strftime fmt now metrics_now drift_result rest mgr new_alerts))"

definition evaluate_alerts ::
  "(datetime \<Rightarrow> string) \<Rightarrow> (string \<Rightarrow> real \<Rightarrow> string) \<Rightarrow> datetime \<Rightarrow> alert_manager \<Rightarrow> json
     \<Rightarrow> (string \<times> json) list option \<Rightarrow> alert_manager \<times> (error + Alert list)" where
  "evaluate_alerts strftime fmt now mgr metrics_now drift_result =
     evaluate_loop strftime fmt now metrics_now drift_result (alert_rules mgr) mgr []"

text \<open>
  A sequence of calls of \<^verbatim>\<open>evaluate_alerts\<close>, each with the reading of the clock, the
  metrics and the drift result of the call.
\<close>

definition evaluate_run ::
  "(datetime \<Rightarrow> string) \<Rightarrow> (string \<Rightarrow> real \<Rightarrow> string) \<Rightarrow> alert_manager
     \<Rightarrow> (datetime \<times> json \<times> (string \<times> json) list option) list \<Rightarrow> alert_manager" where
  "evaluate_run strftime fmt mgr calls =
     foldl (\<lambda>m (now, metrics_now, drift_result).
              fst (evaluate_alerts strftime fmt now m metrics_now drift_result)) mgr calls"

subsection \<open>Distance of the alerts of a rule\<close>

text \<open>The characters that \<^verbatim>\<open>strftime('%Y%m%d%H%M%S')\<close> prints.\<close>

definition is_digit :: "char \<Rightarrow> bool" where
  "is_digit c = (c \<in> set ''0123456789'')"

text \<open>
  The alerts of a rule are those that \<^verbatim>\<open>_is_in_cooldown\<close> counts for it: the rule name
  occurs in the alert id. In a spaced history any two alerts of a rule are at least the
  cooldown of the rule apart.
\<close>

definition spaced :: "(string \<times> alert_rule) list \<Rightarrow> Alert list \<Rightarrow> bool" where
  "spaced rules h =
     (\<forall>(name, rule) \<in> set rules. \<forall>j < length h. \<forall>i < j.
         sublist name (alert_id (h ! i)) \<and> sublist name (alert_id (h ! j)) \<longrightarrow>
           timedelta_minutes (cooldown_minutes rule) \<le> Alert.timestamp (h ! j) - Alert.timestamp (h ! i))"

subsection \<open>Example data\<close>

text \<open>
  A stand-in for \<^verbatim>\<open>strftime\<close> that prints the seconds of a time in decimal, and one for
  \<^verbatim>\<open>format\<close> that prints the format specification.
\<close>

fun digits_of :: "nat \<Rightarrow> string" where
  "digits_of n =
     (if n < 10 then [''0123456789'' ! n]
      else digits_of (n div 10) @ [''0123456789'' ! (n mod 10)])"

declare digits_of.simps [simp del]

definition stamp :: "datetime \<Rightarrow> string" where
  "stamp t = digits_of (nat (t div 1000000))"

definition spec_fmt :: "string \<Rightarrow> real \<Rightarrow> string" where
  "spec_fmt spec x = spec"

text \<open>
  Metrics with an error rate of 10 percent, and three evaluations of them: at time 0, five
  minutes later and twenty minutes later.
\<close>

definition error_metrics :: json where
  "error_metrics = JDict [(''error_rate'', JNum 0.1)]"

definition error_calls :: "(datetime \<times> json \<times> (string \<times> json) list option) list" where
  "error_calls =
     [(0, error_metrics, None), (300000000, error_metrics, None), (1200000000, error_metrics, None)]"

section \<open>Properties of the A/B tests\<close>

subsection \<open>What the calls leave unchanged\<close>

lemma ensure_metrics_config [simp]: "config (ensure_metrics t) = config t"
  by (simp add: ensure_metrics_def config_def split: option.splits)

lemma ensure_metrics_samples [simp]:
  "champion_samples (ensure_metrics t) = champion_samples t"
  "challenger_samples (ensure_metrics t) = challenger_samples t"
  by (simp_all add: ensure_metrics_def split: option.splits)

lemma get_metrics_ensure [simp]: "get_metrics (ensure_metrics t) = get_metrics t"
  by (simp add: get_metrics_def ensure_metrics_def split: option.splits)

lemma get_metrics_cong: "metrics t' = metrics t \<Longrightarrow> get_metrics t' = get_metrics t"
  by (simp add: get_metrics_def)

lemma record_sample_config [simp]: "config (record_sample t m v x n) = config t"
  by (simp add: record_sample_def Let_def config_def ensure_metrics_def split: option.splits)

lemma complete_test_config [simp]: "config (complete_test tt now t) = config t"
  by (simp add: complete_test_def Let_def config_def split: option.splits)

lemma complete_test_data [simp]:
  "champion_samples (complete_test tt now t) = champion_samples t"
  "challenger_samples (complete_test tt now t) = challenger_samples t"
  "metrics (complete_test tt now t) = metrics t"
  "status (complete_test tt now t) = COMPLETED"
  "statistical_significance (complete_test tt now t) = statistical_significance t"
  by (simp_all add: complete_test_def Let_def split: option.splits)


lemma significance_flag_config [simp]: "config (t\<lparr>statistical_significance := b\<rparr>) = config t"
  by (simp add: config_def)

lemma significance_loop_config [simp]: "config (significance_loop tt now t ks) = config t"
  by (induction ks) simp_all

lemma significance_loop_data [simp]:
  "champion_samples (significance_loop tt now t ks) = champion_samples t"
  "challenger_samples (significance_loop tt now t ks) = challenger_samples t"
  "metrics (significance_loop tt now t ks) = metrics t"
  by (induction ks) simp_all



lemma check_test_completion_config [simp]: "config (check_test_completion tt now t) = config t"
  by (simp add: check_test_completion_def Let_def split: option.splits)

lemma check_test_completion_data [simp]:
  "champion_samples (check_test_completion tt now t) = champion_samples t"
  "challenger_samples (check_test_completion tt now t) = challenger_samples t"
  "metrics (check_test_completion tt now t) = metrics t"
  by (simp_all add: check_test_completion_def Let_def split: option.splits)




lemma route_prediction_running:
  assumes "db tid = Some t" and "status t = RUNNING"
  shows "route_prediction md5_int db tid rid =
           Inr (if float_div (real (md5_int rid mod 100)) 100 < traffic_split t
                then (challenger_model t, challenger_version t)
                else (champion_model t, champion_version t))"
  using assms by (simp add: route_prediction_def Let_def)

lemma route_prediction_not_running:
  assumes "db tid = Some t" and "status t \<noteq> RUNNING"
  shows "route_prediction md5_int db tid rid =
           Inl (ValueError (''Test '' @ tid @ '' not found or not running''))"
  using assms by (simp add: route_prediction_def)

subsection \<open>Rounding\<close>

lemma round_half_even_error: "\<bar>of_int (round_half_even q) - q\<bar> \<le> 1 / 2"
  unfolding round_half_even_def Let_def
  by (auto simp: abs_if) linarith+

lemma round_double_error:
  assumes "0 < x"
  shows "\<bar>round_double x - x\<bar> \<le> x / 2 ^ 53"
proof -
  define e where "e = \<lfloor>log 2 \<bar>x\<bar>\<rfloor>"
  define ulp :: real where "ulp = 2 powr (of_int e - 52)"
  have ulp_pos: "0 < ulp" by (simp add: ulp_def)
  have "of_int e \<le> log 2 x" using assms by (simp add: e_def)
  then have "2 powr (of_int e) \<le> x" using assms by (simp add: le_log_iff)
  moreover have "ulp = 2 powr (of_int e) / 2 ^ 52"
    by (simp add: ulp_def powr_diff powr_realpow[symmetric])
  ultimately have ulp_le: "ulp \<le> x / 2 ^ 52" by (simp add: divide_right_mono)
  have rd: "round_double x = of_int (round_half_even (x / ulp)) * ulp"
    using assms by (simp add: round_double_def e_def ulp_def Let_def)
  have "round_double x - x = (of_int (round_half_even (x / ulp)) - x / ulp) * ulp"
    using ulp_pos by (simp add: rd left_diff_distrib)
  then have "\<bar>round_double x - x\<bar> = \<bar>of_int (round_half_even (x / ulp)) - x / ulp\<bar> * ulp"
    using ulp_pos by (simp add: abs_mult)
  also have "\<dots> \<le> 1 / 2 * ulp"
    using round_half_even_error[of "x / ulp"] ulp_pos by (intro mult_right_mono) simp_all
  also have "\<dots> \<le> 1 / 2 * (x / 2 ^ 52)" using ulp_le by simp
  also have "\<dots> = x / 2 ^ 53" by simp
  finally show ?thesis .
qed

lemma round_double_bounds:
  assumes "0 < x"
  shows "x - x / 2 ^ 53 \<le> round_double x" and "round_double x \<le> x + x / 2 ^ 53"
  using round_double_error[OF assms] by linarith+

lemma round_double_zero [simp]: "round_double 0 = 0"
  by (simp add: round_double_def)


lemma quotient_strict_mono:
  assumes "k < j" and "j \<le> 100"
  shows "float_div (real k) 100 < float_div (real j) 100"
proof -
  from assms have jpos: "0 < real j / 100" by simp
  note lo = round_double_bounds(1)[OF jpos]
  have hi: "round_double (real k / 100) \<le> real k / 100 + real k / 100 / 2 ^ 53"
  proof (cases "k = 0")
    case True
    then show ?thesis by simp
  next
    case False
    then have "0 < real k / 100" by simp
    then show ?thesis by (rule round_double_bounds(2))
  qed
  from assms have "real k + 1 \<le> real j" "real k < 100" by simp_all
  then have "real k / 100 + real k / 100 / 2 ^ 53 < real j / 100 - real j / 100 / 2 ^ 53"
    by (simp add: field_simps)
  with lo hi show ?thesis by (simp add: float_div_def)
qed

text \<open>
  A traffic split that is written with two decimals, such as \<^verbatim>\<open>0.07\<close>, is the float
  nearest to \<open>j / 100\<close>, which is the rounded quotient of \<open>j\<close> and 100. With such a split
  the challenger gets the request exactly when the hash modulo 100 is below \<open>j\<close>: at
  \<open>j = 7\<close> and a hash of 7 modulo 100 the float comparison is false and the champion gets
  the request.
\<close>

lemma route_prediction_two_decimal_split:
  assumes "db tid = Some t" and "status t = RUNNING"
      and "traffic_split t = float_div (real j) 100" and "j \<le> 100"
  shows "route_prediction md5_int db tid rid =
           Inr (if md5_int rid mod 100 < j
                then (challenger_model t, challenger_version t)
                else (champion_model t, champion_version t))"
proof -
  let ?k = "md5_int rid mod 100"
  have "(float_div (real ?k) 100 < float_div (real j) 100) = (?k < j)"
  proof (cases "?k < j")
    case True
    with quotient_strict_mono[OF True assms(4)] show ?thesis by simp
  next
    case False
    show ?thesis
    proof (cases "?k = j")
      case True
      then show ?thesis by simp
    next
      case ne: False
      with False have "j < ?k" by simp
      moreover have "?k \<le> 100" by simp
      ultimately have "float_div (real j) 100 < float_div (real ?k) 100"
        by (rule quotient_strict_mono)
      with False show ?thesis by simp
    qed
  qed
  with route_prediction_running[of db tid t md5_int rid] assms(1-3) show ?thesis by simp
qed

subsection \<open>Routing\<close>



subsection \<open>Calls on a test that is not running\<close>

text \<open>
  C2. On a test whose status is not RUNNING, \<^verbatim>\<open>route_prediction\<close> raises (lemma
  \<open>route_prediction_not_running\<close>), but \<^verbatim>\<open>record_result\<close> does not look at the
  status: on the completed test of the example it returns normally and counts the sample.
\<close>

theorem record_result_on_completed_test:
  "map_option (\<lambda>t. (status t, champion_samples t, metrics t))
     (row_after (record_result nan_ttest 0 [''ABT-1'' \<mapsto> ocr_test\<lparr>status := COMPLETED\<rparr>]
         ''ABT-1'' ''medical-prescription-ocr'' ''2'' 0.9 ''accuracy'') ''ABT-1'')
   = Some (COMPLETED, 1, Some \<lparr>champion = [(''accuracy'', [0.9])], challenger = []\<rparr>)"
  by (simp add: row_after_def record_result_def record_sample_def ocr_test_def ensure_metrics_def
      get_metrics_def check_test_completion_def dict_append_def dict_get_def Let_def)

subsection \<open>Status transitions\<close>

text \<open>
  C3. \<^verbatim>\<open>pause_test\<close> and \<^verbatim>\<open>cancel_test\<close> do not look at the status: a completed
  test is paused and then resumed into status RUNNING, a completed test is cancelled, and
  a cancelled test is paused.
\<close>

theorem terminal_status_not_absorbing:
  "status_of (ab_run nan_ttest [''ABT-1'' \<mapsto> ocr_test\<lparr>status := COMPLETED\<rparr>]
       [(1, PauseTest ''ABT-1'')]) ''ABT-1'' = Some PAUSED
   \<and> status_of (ab_run nan_ttest [''ABT-1'' \<mapsto> ocr_test\<lparr>status := COMPLETED\<rparr>]
       [(1, PauseTest ''ABT-1''), (2, ResumeTest ''ABT-1'')]) ''ABT-1'' = Some RUNNING
   \<and> status_of (ab_run nan_ttest [''ABT-1'' \<mapsto> ocr_test\<lparr>status := COMPLETED\<rparr>]
       [(1, CancelTest ''ABT-1'')]) ''ABT-1'' = Some CANCELLED
   \<and> status_of (ab_run nan_ttest [''ABT-1'' \<mapsto> ocr_test\<lparr>status := CANCELLED\<rparr>]
       [(1, PauseTest ''ABT-1'')]) ''ABT-1'' = Some PAUSED"
  by (simp add: ab_run_def pause_test_def resume_test_def cancel_test_def status_of_def)

subsection \<open>Stopping conditions\<close>





subsection \<open>Results of an unknown model\<close>

text \<open>
  C10. For an existing test, \<^verbatim>\<open>record_result\<close> with a model and version that are
  neither the champion nor the challenger returns normally and leaves the two sample
  counts and the metric series as they were.
\<close>

theorem record_result_unknown_variant:
  assumes "db tid = Some t"
      and "\<not> (mname = champion_model t \<and> mversion = champion_version t)"
      and "\<not> (mname = challenger_model t \<and> mversion = challenger_version t)"
  shows "\<exists>t'. record_result tt now db tid mname mversion v series_name = Inr (db(tid \<mapsto> t'))
           \<and> champion_samples t' = champion_samples t
           \<and> challenger_samples t' = challenger_samples t
           \<and> get_metrics t' = get_metrics t"
proof -
  let ?t1 = "record_sample t mname mversion v series_name"
  from assms(2,3) have t1: "?t1 = ensure_metrics t"
    using ensure_metrics_config[of t]
    by (auto simp: record_sample_def Let_def config_def)
  let ?t' = "check_test_completion tt now ?t1"
  have "record_result tt now db tid mname mversion v series_name = Inr (db(tid \<mapsto> ?t'))"
    using assms(1) by (simp add: record_result_def)
  moreover have "champion_samples ?t' = champion_samples t" "challenger_samples ?t' = challenger_samples t"
    by (simp_all add: t1)
  moreover have "get_metrics ?t' = get_metrics t"
    using get_metrics_cong[of ?t' ?t1] by (simp add: t1)
  ultimately show ?thesis by blast
qed

theorem record_result_unknown_variant_witness:
  "[''ABT-1'' \<mapsto> busy_test] ''ABT-1'' = Some busy_test
   \<and> \<not> (''other-model'' = champion_model busy_test \<and> ''2'' = champion_version busy_test)
   \<and> \<not> (''other-model'' = challenger_model busy_test \<and> ''2'' = challenger_version busy_test)
   \<and> map_option (\<lambda>t. (champion_samples t, challenger_samples t, get_metrics t))
        (row_after (record_result nan_ttest 0 [''ABT-1'' \<mapsto> busy_test]
            ''ABT-1'' ''other-model'' ''2'' 0.9 ''accuracy'') ''ABT-1'')
       = Some (2, 1, \<lparr>champion = [(''accuracy'', [0.90, 0.91])],
                       challenger = [(''accuracy'', [0.95])]\<rparr>)"
  using record_result_unknown_variant[where db = "[''ABT-1'' \<mapsto> busy_test]" and tid = "''ABT-1''"
      and t = busy_test and mname = "''other-model''" and mversion = "''2''"
      and tt = nan_ttest and now = 0 and v = "0.9" and series_name = "''accuracy''"]
  by (auto simp add: row_after_def busy_test_def ocr_test_def get_metrics_def)

section \<open>Properties of the window aggregation\<close>

lemma window_start_positive:
  assumes "0 < w"
  shows "window_start_of ts w = Inr (ts - ts mod 3600000000 + (minute_of ts div w) * w * 60000000)"
proof -
  have m: "0 \<le> minute_of ts" "minute_of ts < 60" by (simp_all add: minute_of_def)
  have "0 \<le> minute_of ts div w" using assms m by (simp add: pos_imp_zdiv_nonneg_iff)
  then have lo: "0 \<le> (minute_of ts div w) * w" using assms by simp
  have "(minute_of ts div w) * w \<le> minute_of ts"
    using assms div_mult_mod_eq[of "minute_of ts" w] pos_mod_sign[of w "minute_of ts"] by linarith
  with m have hi: "(minute_of ts div w) * w \<le> 59" by linarith
  from lo hi assms show ?thesis by (simp add: window_start_of_def Let_def)
qed

lemma window_start_divisor_of_60:
  assumes "0 < w" and "w dvd 60"
  shows "window_start_of ts w = Inr (ts - ts mod timedelta_minutes w)"
proof -
  define q where "q = ts div 60000000"
  define r where "r = ts mod 60000000"
  have ts: "ts = 60000000 * q + r" by (simp add: q_def r_def)
  have r: "0 \<le> r" "r < 60000000" by (simp_all add: r_def)
  have minute: "minute_of ts = q mod 60" by (simp add: minute_of_def q_def)
  have "q mod 60 mod w = q mod w" using assms(2) by (rule mod_mod_cancel)
  then have trunc: "(q mod 60 div w) * w = q mod 60 - q mod w"
    by (metis add_diff_cancel_right' div_mult_mod_eq)
  have hour: "ts mod 3600000000 = 60000000 * (q mod 60) + r"
  proof -
    have "ts mod (60000000 * 60) = 60000000 * (ts div 60000000 mod 60) + ts mod 60000000"
      by (rule zmod_zmult2_eq) simp
    then show ?thesis by (simp add: q_def r_def)
  qed
  have win: "ts mod (60000000 * w) = 60000000 * (q mod w) + r"
  proof -
    have "ts mod (60000000 * w) = 60000000 * (ts div 60000000 mod w) + ts mod 60000000"
      using assms(1) by (intro zmod_zmult2_eq) simp
    then show ?thesis by (simp add: q_def r_def)
  qed
  have "ts - ts mod 3600000000 + (minute_of ts div w) * w * 60000000 = ts - ts mod (60000000 * w)"
    unfolding hour win minute trunc by (simp add: algebra_simps)
  then show ?thesis
    using window_start_positive[OF assms(1), of ts]
    by (simp add: timedelta_minutes_def mult.commute)
qed


lemma dict_append_not_empty [simp]: "dict_append d k v \<noteq> []"
  by (cases d) (simp_all add: dict_append_def)

lemma dict_append_buckets:
  assumes "\<forall>(k', vs) \<in> set d. vs \<noteq> []" and "(k', vs) \<in> set (dict_append d k v)"
  shows "vs \<noteq> []"
  using assms by (induction d) (auto simp: dict_append_def dict_get_def split: if_splits option.splits)

lemma group_loop_buckets:
  assumes "group_loop ps w acc = Inr ws" and "\<forall>(k, vs) \<in> set acc. vs \<noteq> []"
  shows "\<forall>(k, vs) \<in> set ws. vs \<noteq> []"
  using assms
proof (induction ps arbitrary: acc)
  case Nil
  then show ?case by simp
next
  case (Cons p ps)
  from Cons.prems(1) obtain start where
    start: "window_start_of (ModelPrediction.timestamp p) w = Inr start"
    and rest: "group_loop ps w (dict_append acc start p) = Inr ws"
    by (auto split: sum.splits)
  have "\<forall>(k, vs) \<in> set (dict_append acc start p). vs \<noteq> []"
    using dict_append_buckets[OF Cons.prems(2)] by blast
  with Cons.IH[OF rest] show ?case by blast
qed

lemma group_loop_not_empty:
  "group_loop ps w acc = Inr ws \<Longrightarrow> ps \<noteq> [] \<or> acc \<noteq> [] \<Longrightarrow> ws \<noteq> []"
  by (induction ps arbitrary: acc) (auto split: sum.splits)

lemma group_into_windows_buckets:
  "group_into_windows ps w = Inr ws \<Longrightarrow> (k, vs) \<in> set ws \<Longrightarrow> vs \<noteq> []"
  using group_loop_buckets[of ps w "[]" ws] by (auto simp: group_into_windows_def)

subsection \<open>Buckets\<close>

text \<open>
  C6. The window start keeps the hour of the time stamp and truncates the minute of the
  hour to a multiple of the window size. For a window size that divides 60 this is the
  time stamp truncated to a multiple of the window size (lemma
  \<open>window_start_divisor_of_60\<close>), and no bucket of the result is empty (lemma
  \<open>group_into_windows_buckets\<close>). For a window size of 120 minutes it is not: 00:30 and
  01:30 truncate to the same multiple of 120 minutes, and the source puts them into two
  buckets, which start at 00:00 and 01:00.
\<close>

theorem window_start_within_the_hour:
  "window_start_of half_past_midnight 120 = Inr 0
   \<and> window_start_of half_past_one 120 = Inr 3600000000
   \<and> half_past_midnight - half_past_midnight mod timedelta_minutes 120 = 0
   \<and> half_past_one - half_past_one mod timedelta_minutes 120 = 0
   \<and> group_into_windows [pred_at half_past_midnight, pred_at half_past_one] 120
       = Inr [(0, [pred_at half_past_midnight]), (3600000000, [pred_at half_past_one])]"
  by (simp add: window_start_of_def minute_of_def half_past_midnight_def half_past_one_def
      timedelta_minutes_def group_into_windows_def dict_append_def dict_get_def pred_at_def)


subsection \<open>A second run of the aggregation\<close>

lemma stat_metric_restamp:
  "stat_metric now2 name version ws we w kind p x xs
     = (stat_metric now1 name version ws we w kind p x xs)\<lparr>created_at := now2\<rparr>"
  by (simp add: stat_metric_def)

lemma calculate_window_metrics_restamp:
  assumes "calculate_window_metrics so now1 name ps ws we w = Inr ms"
  shows "calculate_window_metrics so now2 name ps ws we w = Inr (restamp now2 ms)"
  using assms
  by (auto simp: calculate_window_metrics_def restamp_def Let_def stat_metric_restamp[of now2 _ _ _ _ _ _ _ _ _ now1]
      split: if_splits sum.splits list.splits)

lemma calculate_window_metrics_not_empty:
  assumes "calculate_window_metrics so now name ps ws we w = Inr ms" and "ps \<noteq> []"
  shows "ms \<noteq> []"
  using assms
  by (auto simp: calculate_window_metrics_def Let_def split: if_splits sum.splits)

lemma windows_loop_restamp:
  assumes "windows_loop so now1 name w wins acc = Inr ms"
  shows "windows_loop so now2 name w wins (restamp now2 acc) = Inr (restamp now2 ms)"
  using assms
proof (induction wins arbitrary: acc)
  case Nil
  then show ?case by simp
next
  case (Cons win wins)
  obtain ws ps where win: "win = (ws, ps)" by (cases win)
  from Cons.prems win obtain ms1 where
    one: "calculate_window_metrics so now1 name ps ws (ws + timedelta_minutes w) w = Inr ms1"
    and rest: "windows_loop so now1 name w wins (acc @ ms1) = Inr ms"
    by (auto simp: Let_def split: sum.splits)
  from Cons.IH[OF rest] calculate_window_metrics_restamp[OF one, of now2] win
  show ?case by (simp add: Let_def restamp_def)
qed

lemma windows_loop_not_empty:
  assumes "windows_loop so now name w wins acc = Inr ms"
      and "acc \<noteq> [] \<or> (wins \<noteq> [] \<and> (\<forall>(k, vs) \<in> set wins. vs \<noteq> []))"
  shows "ms \<noteq> []"
  using assms
proof (induction wins arbitrary: acc)
  case Nil
  then show ?case by simp
next
  case (Cons win wins)
  obtain ws ps where win: "win = (ws, ps)" by (cases win)
  from Cons.prems(1) win obtain ms1 where
    one: "calculate_window_metrics so now name ps ws (ws + timedelta_minutes w) w = Inr ms1"
    and rest: "windows_loop so now name w wins (acc @ ms1) = Inr ms"
    by (auto simp: Let_def split: sum.splits)
  have "acc @ ms1 \<noteq> []"
  proof (cases "acc = []")
    case True
    with Cons.prems(2) win have "ps \<noteq> []" by auto
    with calculate_window_metrics_not_empty[OF one] show ?thesis by simp
  next
    case False
    then show ?thesis by simp
  qed
  with Cons.IH[OF rest] show ?case by simp
qed

lemma restamp_keys: "map metric_key (restamp now ms) = map metric_key ms"
  by (simp add: restamp_def metric_key_def)

lemma most_common_version_exists:
  assumes "ps \<noteq> []" and "\<forall>vs. set (so vs) = set vs"
  shows "\<exists>version. most_common_version so ps = Inr version"
proof -
  from assms(1) have "set (map ModelPrediction.model_version ps) \<noteq> {}" by simp
  with assms(2) have "so (map ModelPrediction.model_version ps) \<noteq> []"
    by (metis set_empty)
  then show ?thesis
    by (cases "so (map ModelPrediction.model_version ps)") (simp_all add: most_common_version_def)
qed

lemma calculate_window_metrics_version:
  assumes "most_common_version so ps = Inr version"
  shows "calculate_window_metrics so now name ps ws we w
           = calculate_window_metrics (\<lambda>vs. [version]) now name ps ws we w"
  using assms by (simp add: calculate_window_metrics_def most_common_version_def)

lemma window_rows_unversioned:
  "map_sum id (map unversioned) (calculate_window_metrics (\<lambda>vs. [v2]) now2 name ps ws we w)
     = map_sum id (map unversioned) (calculate_window_metrics (\<lambda>vs. [v1]) now1 name ps ws we w)"
  by (simp add: calculate_window_metrics_def most_common_version_def Let_def unversioned_def
      stat_metric_def split: list.splits)

lemma calculate_window_metrics_unversioned:
  assumes "calculate_window_metrics so1 now1 name ps ws we w = Inr ms1"
      and "\<forall>vs. set (so2 vs) = set vs"
  shows "\<exists>ms2. calculate_window_metrics so2 now2 name ps ws we w = Inr ms2
               \<and> map unversioned ms2 = map unversioned ms1"
proof (cases "ps = []")
  case True
  with assms(1) show ?thesis by (simp add: calculate_window_metrics_def)
next
  case False
  from most_common_version_exists[OF False assms(2)] obtain v2 where
    v2: "most_common_version so2 ps = Inr v2" by blast
  from assms(1) False obtain v1 where v1: "most_common_version so1 ps = Inr v1"
    by (auto simp: calculate_window_metrics_def Let_def split: sum.splits if_splits)
  from assms(1) calculate_window_metrics_version[OF v1, of now1 name ws we w]
  have "calculate_window_metrics (\<lambda>vs. [v1]) now1 name ps ws we w = Inr ms1" by simp
  with window_rows_unversioned[of v2 now2 name ps ws we w v1 now1]
  have "map_sum id (map unversioned) (calculate_window_metrics (\<lambda>vs. [v2]) now2 name ps ws we w)
          = Inr (map unversioned ms1)"
    by simp
  then obtain ms2 where
    "calculate_window_metrics (\<lambda>vs. [v2]) now2 name ps ws we w = Inr ms2"
    "map unversioned ms2 = map unversioned ms1"
    by (cases "calculate_window_metrics (\<lambda>vs. [v2]) now2 name ps ws we w") auto
  with calculate_window_metrics_version[OF v2, of now2 name ws we w] show ?thesis by simp
qed

lemma windows_loop_unversioned:
  assumes "windows_loop so1 now1 name w wins acc1 = Inr ms1"
      and "map unversioned acc2 = map unversioned acc1"
      and "\<forall>vs. set (so2 vs) = set vs"
  shows "\<exists>ms2. windows_loop so2 now2 name w wins acc2 = Inr ms2
               \<and> map unversioned ms2 = map unversioned ms1"
  using assms(1,2)
proof (induction wins arbitrary: acc1 acc2)
  case Nil
  then show ?case by simp
next
  case (Cons win wins)
  obtain ws ps where win: "win = (ws, ps)" by (cases win)
  from Cons.prems(1) win obtain new1 where
    one: "calculate_window_metrics so1 now1 name ps ws (ws + timedelta_minutes w) w = Inr new1"
    and rest: "windows_loop so1 now1 name w wins (acc1 @ new1) = Inr ms1"
    by (auto simp: Let_def split: sum.splits)
  from calculate_window_metrics_unversioned[OF one assms(3), of now2] obtain new2 where
    two: "calculate_window_metrics so2 now2 name ps ws (ws + timedelta_minutes w) w = Inr new2"
    and same: "map unversioned new2 = map unversioned new1"
    by blast
  from Cons.prems(2) same have "map unversioned (acc2 @ new2) = map unversioned (acc1 @ new1)"
    by simp
  from Cons.IH[OF rest this] win two show ?case by (simp add: Let_def)
qed

text \<open>
  The most common version of a window with a tie depends on the order of the set: of one
  prediction of version 2 and one of version 3, either version is the result.
\<close>

lemma version_tie_follows_set_order:
  "most_common_version remdups
     [pred_at 0, (pred_at 0)\<lparr>ModelPrediction.model_version := ''3''\<rparr>] = Inr ''2''"
  "most_common_version (rev \<circ> remdups)
     [pred_at 0, (pred_at 0)\<lparr>ModelPrediction.model_version := ''3''\<rparr>] = Inr ''3''"
  by (simp_all add: most_common_version_def pred_at_def)

text \<open>
  C5, amended. The aggregation is not idempotent: a run appends the rows it computes to the
  table and overwrites none. A second run over the same predictions appends the rows of
  the first run once more: the same model, windows, metric types, values and sample
  counts, with the creation time of the second run, so that every key of model, window and
  metric of the first run is in the table twice. The version of the rows of a window is
  the most common version of its predictions, and a tie is broken by the order in which
  Python iterates over the set of versions: when both runs iterate in the same order, the
  rows of the second run have the versions of the first, and every key of model, version,
  window and metric is in the table twice. A run over a non-empty selection of predictions
  computes at least one row.
\<close>

theorem aggregation_appends_again:
  assumes same: "predictions_since (model_predictions db) name (now2 - timedelta_hours lb)
                   = predictions_since (model_predictions db) name (now1 - timedelta_hours lb)"
      and first: "calculate_aggregated_metrics so1 now1 db name w lb = Inr (db1, ms1)"
      and order: "\<forall>vs. set (so2 vs) = set vs"
  shows "\<exists>ms2. calculate_aggregated_metrics so2 now2 db1 name w lb
                 = Inr (db\<lparr>model_metrics := model_metrics db @ ms1 @ ms2\<rparr>, ms2)
               \<and> map unversioned ms2 = map unversioned ms1
               \<and> (so2 = so1 \<longrightarrow> ms2 = restamp now2 ms1
                                  \<and> map metric_key ms2 = map metric_key ms1)
               \<and> (predictions_since (model_predictions db) name (now1 - timedelta_hours lb) \<noteq> []
                    \<longrightarrow> ms1 \<noteq> [])"
proof -
  define ps where "ps = predictions_since (model_predictions db) name (now1 - timedelta_hours lb)"
  show ?thesis
  proof (cases "ps = []")
    case True
    with first have "db1 = db" "ms1 = []"
      by (simp_all add: calculate_aggregated_metrics_def ps_def Let_def)
    with True same show ?thesis
      by (simp add: calculate_aggregated_metrics_def ps_def Let_def restamp_def)
  next
    case False
    with first obtain wins where
      wins: "group_into_windows ps w = Inr wins"
      and loop: "windows_loop so1 now1 name w wins [] = Inr ms1"
      and db1: "db1 = db\<lparr>model_metrics := model_metrics db @ ms1\<rparr>"
      by (auto simp: calculate_aggregated_metrics_def ps_def Let_def split: sum.splits)
    from windows_loop_unversioned[OF loop _ order, of "[]" now2] obtain ms2 where
      loop2: "windows_loop so2 now2 name w wins [] = Inr ms2"
      and rows: "map unversioned ms2 = map unversioned ms1"
      by auto
    have again: "calculate_aggregated_metrics so2 now2 db1 name w lb
           = Inr (db\<lparr>model_metrics := model_metrics db @ ms1 @ ms2\<rparr>, ms2)"
      using False same wins loop2
      by (simp add: calculate_aggregated_metrics_def db1 ps_def Let_def)
    have versions: "ms2 = restamp now2 ms1 \<and> map metric_key ms2 = map metric_key ms1"
      if "so2 = so1"
    proof -
      from windows_loop_restamp[OF loop, of now2] that
      have "windows_loop so2 now2 name w wins [] = Inr (restamp now2 ms1)"
        by (simp add: restamp_def)
      with loop2 have "ms2 = restamp now2 ms1" by simp
      then show ?thesis by (simp add: restamp_keys)
    qed
    have "wins \<noteq> []"
      using group_loop_not_empty[of ps w "[]" wins] wins False
      by (simp add: group_into_windows_def)
    moreover have "\<forall>(k, vs) \<in> set wins. vs \<noteq> []"
      using group_into_windows_buckets[OF wins] by blast
    ultimately have "ms1 \<noteq> []"
      using windows_loop_not_empty[OF loop] by blast
    with again rows versions show ?thesis by blast
  qed
qed

lemma single_prediction_aggregation:
  assumes "model_predictions db = [pred_at half_past_midnight]"
      and "now - timedelta_hours 24 \<le> half_past_midnight"
      and "so [''2''] = [''2'']"
  shows "calculate_aggregated_metrics so now db ''medical-prescription-ocr'' 60 24
           = Inr (db\<lparr>model_metrics := model_metrics db @ ocr_window_metrics now\<rparr>,
                  ocr_window_metrics now)"
  using assms
  by (simp add: calculate_aggregated_metrics_def pred_at_def
      predictions_since_def group_into_windows_def window_start_of_def minute_of_def
      half_past_midnight_def dict_append_def dict_get_def calculate_window_metrics_def
      most_common_version_def List.map_filter_simps stat_metric_def statistics_mean_def has_truth_def
      py_min_def py_max_def np_percentile_def timedelta_minutes_def ocr_window_metrics_def Let_def)

text \<open>
  Two runs over the table of one prediction, the second one hour after the first: with the
  same order of the set, and with the reversed order.
\<close>

theorem aggregation_appends_again_witness:
  "predictions_since (model_predictions one_prediction_db) ''medical-prescription-ocr''
       (7200000000 - timedelta_hours 24)
     = predictions_since (model_predictions one_prediction_db) ''medical-prescription-ocr''
       (3600000000 - timedelta_hours 24)
   \<and> calculate_aggregated_metrics remdups 3600000000 one_prediction_db ''medical-prescription-ocr'' 60 24
     = Inr (one_prediction_db\<lparr>model_metrics := ocr_window_metrics 3600000000\<rparr>,
            ocr_window_metrics 3600000000)
   \<and> (\<forall>vs::string list. set (remdups vs) = set vs)
   \<and> (\<forall>vs::string list. set ((rev \<circ> remdups) vs) = set vs)
   \<and> calculate_aggregated_metrics remdups 7200000000
         (one_prediction_db\<lparr>model_metrics := ocr_window_metrics 3600000000\<rparr>)
         ''medical-prescription-ocr'' 60 24
     = Inr (one_prediction_db\<lparr>model_metrics :=
              ocr_window_metrics 3600000000 @ ocr_window_metrics 7200000000\<rparr>,
            ocr_window_metrics 7200000000)
   \<and> map unversioned (snd (projr (calculate_aggregated_metrics (rev \<circ> remdups) 7200000000
         (one_prediction_db\<lparr>model_metrics := ocr_window_metrics 3600000000\<rparr>)
         ''medical-prescription-ocr'' 60 24)))
     = map unversioned (ocr_window_metrics 3600000000)
   \<and> predictions_since (model_predictions one_prediction_db) ''medical-prescription-ocr''
       (3600000000 - timedelta_hours 24) \<noteq> []
   \<and> ocr_window_metrics 3600000000 \<noteq> []"
proof -
  let ?ps = "\<lambda>now. predictions_since (model_predictions one_prediction_db)
      ''medical-prescription-ocr'' (now - timedelta_hours 24)"
  let ?db1 = "one_prediction_db\<lparr>model_metrics := ocr_window_metrics 3600000000\<rparr>"
  have sel: "?ps 3600000000 = [pred_at half_past_midnight]" "?ps 7200000000 = [pred_at half_past_midnight]"
    by (simp_all add: predictions_since_def one_prediction_db_def pred_at_def
        half_past_midnight_def timedelta_hours_def)
  then have same: "?ps 7200000000 = ?ps 3600000000" by simp
  have first: "calculate_aggregated_metrics remdups 3600000000 one_prediction_db
      ''medical-prescription-ocr'' 60 24 = Inr (?db1, ocr_window_metrics 3600000000)"
    using single_prediction_aggregation[of one_prediction_db 3600000000 remdups]
    by (simp add: one_prediction_db_def half_past_midnight_def timedelta_hours_def)
  have o1: "\<forall>vs::string list. set (remdups vs) = set vs" by simp
  have o2: "\<forall>vs::string list. set ((rev \<circ> remdups) vs) = set vs" by simp
  have stamp: "restamp 7200000000 (ocr_window_metrics 3600000000) = ocr_window_metrics 7200000000"
    by (simp add: restamp_def ocr_window_metrics_def)
  from aggregation_appends_again[OF same first o1] stamp
  have second: "calculate_aggregated_metrics remdups 7200000000 ?db1 ''medical-prescription-ocr'' 60 24
     = Inr (one_prediction_db\<lparr>model_metrics :=
              ocr_window_metrics 3600000000 @ ocr_window_metrics 7200000000\<rparr>,
            ocr_window_metrics 7200000000)"
    by (auto simp add: one_prediction_db_def)
  from aggregation_appends_again[OF same first o2] obtain ms2 where
    "calculate_aggregated_metrics (rev \<circ> remdups) 7200000000 ?db1 ''medical-prescription-ocr'' 60 24
       = Inr (one_prediction_db\<lparr>model_metrics :=
                model_metrics one_prediction_db @ ocr_window_metrics 3600000000 @ ms2\<rparr>, ms2)"
    and "map unversioned ms2 = map unversioned (ocr_window_metrics 3600000000)"
    by blast
  then have reversed: "map unversioned (snd (projr (calculate_aggregated_metrics (rev \<circ> remdups)
         7200000000 ?db1 ''medical-prescription-ocr'' 60 24)))
     = map unversioned (ocr_window_metrics 3600000000)"
    by simp
  from sel same first o1 o2 second reversed show ?thesis
    by (simp add: ocr_window_metrics_def)
qed

text \<open>
  The claim C5 as it is written fails: after two runs at the same time over the table of one
  prediction, the table of metrics holds the latency row of the window twice.
\<close>

theorem aggregation_duplicates_counterexample:
  "length (filter (\<lambda>m. metric_key m = (''medical-prescription-ocr'', ''2'', 0, 60, LATENCY))
     (model_metrics (run_aggregation remdups 3600000000
        (run_aggregation remdups 3600000000 one_prediction_db ''medical-prescription-ocr'' 60 24)
        ''medical-prescription-ocr'' 60 24))) = 2
   \<and> length (filter (\<lambda>m. metric_key m = (''medical-prescription-ocr'', ''2'', 0, 60, LATENCY))
     (model_metrics
        (run_aggregation remdups 3600000000 one_prediction_db ''medical-prescription-ocr'' 60 24))) = 1"
proof -
  have first: "run_aggregation remdups 3600000000 one_prediction_db ''medical-prescription-ocr'' 60 24
      = one_prediction_db\<lparr>model_metrics := ocr_window_metrics 3600000000\<rparr>"
    using single_prediction_aggregation[of one_prediction_db 3600000000 remdups]
    by (simp add: run_aggregation_def one_prediction_db_def half_past_midnight_def timedelta_hours_def)
  have second: "run_aggregation remdups 3600000000
        (one_prediction_db\<lparr>model_metrics := ocr_window_metrics 3600000000\<rparr>)
        ''medical-prescription-ocr'' 60 24
      = one_prediction_db\<lparr>model_metrics :=
           ocr_window_metrics 3600000000 @ ocr_window_metrics 3600000000\<rparr>"
    using single_prediction_aggregation[of
        "one_prediction_db\<lparr>model_metrics := ocr_window_metrics 3600000000\<rparr>" 3600000000 remdups]
    by (simp add: run_aggregation_def one_prediction_db_def half_past_midnight_def timedelta_hours_def)
  show ?thesis
    unfolding first second by (simp add: ocr_window_metrics_def metric_key_def)
qed

subsection \<open>Configuration values\<close>

text \<open>
  C8, amended. Neither call checks its configuration. \<^verbatim>\<open>create_ab_test\<close> stores the
  traffic split it is given, whatever its value, and the test starts in status RUNNING.
  \<^verbatim>\<open>calculate_aggregated_metrics\<close> returns the empty list for every window size when no
  prediction is selected, and with a window size of 0 and at least one selected prediction
  it fails with the ZeroDivisionError of the floor division.
\<close>

theorem no_configuration_check:
  "(db new_id = None \<longrightarrow>
      (\<exists>test. create_ab_test new_id now db name cm cv chm chv ts min_s max_d descr
                 = Inr (db(new_id \<mapsto> test), test)
              \<and> traffic_split test = ts \<and> status test = RUNNING))
   \<and> (predictions_since (model_predictions mdb) mname (now' - timedelta_hours lb) = [] \<longrightarrow>
        calculate_aggregated_metrics so now' mdb mname w lb = Inr (mdb, []))
   \<and> (predictions_since (model_predictions mdb) mname (now' - timedelta_hours lb) \<noteq> [] \<longrightarrow>
        calculate_aggregated_metrics so now' mdb mname 0 lb = Inl ZeroDivisionError)"
proof (intro conjI impI)
  assume "db new_id = None"
  then show "\<exists>test. create_ab_test new_id now db name cm cv chm chv ts min_s max_d descr
                 = Inr (db(new_id \<mapsto> test), test)
              \<and> traffic_split test = ts \<and> status test = RUNNING"
    by (simp add: create_ab_test_def Let_def)
next
  assume "predictions_since (model_predictions mdb) mname (now' - timedelta_hours lb) = []"
  then show "calculate_aggregated_metrics so now' mdb mname w lb = Inr (mdb, [])"
    by (simp add: calculate_aggregated_metrics_def Let_def)
next
  assume ne: "predictions_since (model_predictions mdb) mname (now' - timedelta_hours lb) \<noteq> []"
  then obtain p ps where
    "predictions_since (model_predictions mdb) mname (now' - timedelta_hours lb) = p # ps"
    by (cases "predictions_since (model_predictions mdb) mname (now' - timedelta_hours lb)") auto
  then show "calculate_aggregated_metrics so now' mdb mname 0 lb = Inl ZeroDivisionError"
    by (simp add: calculate_aggregated_metrics_def Let_def group_into_windows_def window_start_of_def)
qed

theorem no_configuration_check_witness:
  "Map.empty ''ABT-2'' = None
   \<and> (case create_ab_test ''ABT-2'' 0 Map.empty ''Split test'' ''medical-prescription-ocr'' ''2''
            ''medical-prescription-ocr'' ''3'' 1.5 1000 14 None of
         Inl e \<Rightarrow> None
       | Inr (db, test) \<Rightarrow> Some (traffic_split test, status test)) = Some (1.5, RUNNING)
   \<and> predictions_since (model_predictions one_prediction_db) ''other-model''
         (3600000000 - timedelta_hours 24) = []
   \<and> calculate_aggregated_metrics remdups 3600000000 one_prediction_db ''other-model'' (-5) 24
         = Inr (one_prediction_db, [])
   \<and> predictions_since (model_predictions one_prediction_db) ''medical-prescription-ocr''
         (3600000000 - timedelta_hours 24) \<noteq> []
   \<and> calculate_aggregated_metrics remdups 3600000000 one_prediction_db ''medical-prescription-ocr'' 0 24
         = Inl ZeroDivisionError"
proof -
  have a: "predictions_since (model_predictions one_prediction_db) ''other-model''
         (3600000000 - timedelta_hours 24) = []"
    by (simp add: predictions_since_def one_prediction_db_def pred_at_def)
  have b: "predictions_since (model_predictions one_prediction_db) ''medical-prescription-ocr''
         (3600000000 - timedelta_hours 24) \<noteq> []"
    by (simp add: predictions_since_def one_prediction_db_def pred_at_def
        half_past_midnight_def timedelta_hours_def)
  note c = no_configuration_check[where db = Map.empty and new_id = "''ABT-2''" and now = 0
      and name = "''Split test''" and cm = "''medical-prescription-ocr''" and cv = "''2''"
      and chm = "''medical-prescription-ocr''" and chv = "''3''" and ts = "1.5"
      and min_s = 1000 and max_d = 14 and descr = None
      and mdb = one_prediction_db and now' = 3600000000 and lb = 24 and so = remdups]
  from c[where mname = "''other-model''" and w = "-5"] a
  have "(case create_ab_test ''ABT-2'' 0 Map.empty ''Split test'' ''medical-prescription-ocr'' ''2''
            ''medical-prescription-ocr'' ''3'' 1.5 1000 14 None of
         Inl e \<Rightarrow> None
       | Inr (db, test) \<Rightarrow> Some (traffic_split test, status test)) = Some (1.5, RUNNING)"
    and "calculate_aggregated_metrics remdups 3600000000 one_prediction_db ''other-model'' (-5) 24
         = Inr (one_prediction_db, [])"
    by auto
  moreover from c[where mname = "''medical-prescription-ocr''" and w = 0] b
  have "calculate_aggregated_metrics remdups 3600000000 one_prediction_db ''medical-prescription-ocr'' 0 24
         = Inl ZeroDivisionError"
    by blast
  ultimately show ?thesis using a b by simp
qed

text \<open>
  The claim C8 as it is written fails: a test with a traffic split of 1.5 is created.
\<close>

theorem traffic_split_unchecked_counterexample:
  "(case create_ab_test ''ABT-2'' 0 Map.empty ''Split test'' ''medical-prescription-ocr'' ''2''
            ''medical-prescription-ocr'' ''3'' 1.5 1000 14 None of
         Inl e \<Rightarrow> None
       | Inr (db, test) \<Rightarrow> Some (traffic_split test, status test)) = Some (1.5, RUNNING)"
  by (simp add: create_ab_test_def Let_def)

section \<open>Properties of the drift detection\<close>

text \<open>
  The claim C7 as it is written fails: with no prediction at all, both detections return
  normally with the value None, the value they also return when there is no drift, and
  raise no error.
\<close>

theorem insufficient_samples_counterexample:
  "detect_data_drift ''DRIFT-1'' 0 [] [] ''medical-prescription-ocr'' ''2'' 0 10 10 20 = Inr ([], None)
   \<and> detect_prediction_drift (fixed_ks 0.5 0.01) ''DRIFT-1'' 0 [] [] ''medical-prescription-ocr'' ''2'' 7
       = Inr ([], None)"
  by (simp add: detect_data_drift_def detect_prediction_drift_def predictions_between_def
      MIN_SAMPLES_def Let_def)

lemma no_data_drift_returns_none:
  assumes "calculate_psi (confidences_of (predictions_between table name b_start b_end))
             (confidences_of (predictions_between table name c_start c_end)) 10 = Inr psi"
      and "psi \<le> DATA_DRIFT_THRESHOLD"
  shows "detect_data_drift new_id now table drifts name version b_start b_end c_start c_end
           = Inr (drifts, None)"
  using assms by (simp add: detect_data_drift_def Let_def)

lemma no_prediction_drift_returns_none:
  assumes "ks (confidences_of (predictions_between table name (now - timedelta_days lb)
                (now - timedelta_half_days lb)))
              (confidences_of (predictions_between table name (now - timedelta_half_days lb) now))
             = Inr (statistic, p)"
      and "\<not> p < 0.05 \<or> statistic \<le> PREDICTION_DRIFT_THRESHOLD"
  shows "detect_prediction_drift ks new_id now table drifts name version lb = Inr (drifts, None)"
  using assms by (auto simp add: detect_prediction_drift_def Let_def)

text \<open>
  C7, amended. In both detection modes, if the baseline side or the current side has fewer
  than 100 prediction rows, the call returns None and leaves the table of detections as it
  was: no DriftDetection is created. No error is raised, and the value is the one that the
  call returns when the samples suffice and the score does not exceed the threshold
  (lemmas \<open>no_data_drift_returns_none\<close> and \<open>no_prediction_drift_returns_none\<close>).
\<close>

theorem insufficient_samples_returns_none:
  "(length (predictions_between table name b_start b_end) < 100
      \<or> length (predictions_between table name c_start c_end) < 100 \<longrightarrow>
        detect_data_drift new_id now table drifts name version b_start b_end c_start c_end
          = Inr (drifts, None))
   \<and> (length (predictions_between table name (now - timedelta_days lb) (now - timedelta_half_days lb)) < 100
      \<or> length (predictions_between table name (now - timedelta_half_days lb) now) < 100 \<longrightarrow>
        detect_prediction_drift ks new_id now table drifts name version lb = Inr (drifts, None))
"
  by (auto simp add: detect_data_drift_def detect_prediction_drift_def MIN_SAMPLES_def Let_def)

theorem insufficient_samples_returns_none_witness:
  "length (predictions_between [pred_at half_past_midnight] ''medical-prescription-ocr'' 0 3600000000) < 100
   \<and> detect_data_drift ''DRIFT-1'' 7200000000 [pred_at half_past_midnight] []
         ''medical-prescription-ocr'' ''2'' 0 3600000000 3600000000 7200000000 = Inr ([], None)
   \<and> length (predictions_between [pred_at half_past_midnight] ''medical-prescription-ocr''
         (7200000000 - timedelta_half_days 7) 7200000000) < 100
   \<and> detect_prediction_drift (fixed_ks 0.5 0.01) ''DRIFT-1'' 7200000000 [pred_at half_past_midnight] []
         ''medical-prescription-ocr'' ''2'' 7 = Inr ([], None)"
proof -
  have a: "length (predictions_between [pred_at half_past_midnight] ''medical-prescription-ocr''
      0 3600000000) < 100"
    by (simp add: predictions_between_def)
  have b: "length (predictions_between [pred_at half_past_midnight] ''medical-prescription-ocr''
         (7200000000 - timedelta_half_days 7) 7200000000) < 100"
    by (simp add: predictions_between_def)
  note c = insufficient_samples_returns_none[where table = "[pred_at half_past_midnight]"
      and name = "''medical-prescription-ocr''" and b_start = 0 and b_end = 3600000000
      and c_start = 3600000000 and c_end = 7200000000 and new_id = "''DRIFT-1''"
      and now = 7200000000 and drifts = "[]" and version = "''2''" and lb = 7
      and ks = "fixed_ks 0.5 0.01"]
  from c a b show ?thesis by blast
qed

section \<open>Properties of the alerts\<close>

lemma sublist_filter:
  assumes "sublist xs ys"
  shows "sublist (filter P xs) (filter P ys)"
proof -
  from assms obtain ps ss where "ys = ps @ xs @ ss" by (auto simp: sublist_def)
  then have "filter P ys = filter P ps @ filter P xs @ filter P ss" by simp
  then show ?thesis by (auto simp: sublist_def)
qed

lemma filter_digits_away:
  assumes "\<forall>c \<in> set d. is_digit c"
  shows "filter (\<lambda>c. \<not> is_digit c) d = []"
  using assms by (induction d) auto

lemma rule_name_match:
  assumes n: "n \<in> fst ` set initialize_alert_rules"
      and n': "n' \<in> fst ` set initialize_alert_rules"
      and d: "\<forall>c \<in> set d. is_digit c"
      and sub: "sublist n (n' @ ''_'' @ d)"
  shows "n = n'"
proof -
  let ?P = "\<lambda>c. \<not> is_digit c"
  from n n' have keep: "filter ?P n = n" "filter ?P n' = n'"
    by (auto simp: initialize_alert_rules_def is_digit_def)
  from sublist_filter[OF sub, of ?P] keep filter_digits_away[OF d]
  have "sublist n (n' @ ''_'')" by (simp add: is_digit_def)
  with n n' show ?thesis
    by (auto simp: initialize_alert_rules_def sublist_code prefix_code)
qed


lemma py_max_key_start: "key a \<le> key (py_max_key key a as)"
proof (induction as arbitrary: a)
  case Nil
  then show ?case by simp
next
  case (Cons b bs)
  show ?case
  proof (cases "key b > key a")
    case True
    with Cons.IH[of b] show ?thesis by simp
  next
    case False
    with Cons.IH[of a] show ?thesis by simp
  qed
qed

lemma py_max_key_ge: "x \<in> set as \<Longrightarrow> key x \<le> key (py_max_key key a as)"
proof (induction as arbitrary: a)
  case Nil
  then show ?case by simp
next
  case (Cons b bs)
  show ?case
  proof (cases "x = b")
    case True
    show ?thesis
    proof (cases "key b > key a")
      case True
      with \<open>x = b\<close> py_max_key_start[of key b bs] show ?thesis by simp
    next
      case False
      with \<open>x = b\<close> py_max_key_start[of key a bs] show ?thesis by simp
    qed
  next
    case False
    with Cons.prems have "x \<in> set bs" by simp
    from Cons.IH[OF this] show ?thesis by simp
  qed
qed

lemma py_max_key_mem: "py_max_key key a as \<in> set (a # as)"
  by (induction as arbitrary: a) (auto split: if_splits)

lemma cooldown_check:
  assumes rule: "map_of (alert_rules mgr) name = Some rule"
  shows "is_in_cooldown now mgr name =
           Inr (\<exists>b \<in> set (alert_history mgr). sublist name (alert_id b)
                  \<and> now - Alert.timestamp b < timedelta_minutes (cooldown_minutes rule))"
proof (cases "filter (\<lambda>a. sublist name (alert_id a)) (alert_history mgr)")
  case Nil
  then have "\<forall>b \<in> set (alert_history mgr). \<not> sublist name (alert_id b)"
    by (simp add: filter_empty_conv)
  with Nil rule show ?thesis by (auto simp: is_in_cooldown_def)
next
  case (Cons a as)
  let ?m = "py_max_key Alert.timestamp a as"
  have members: "set (a # as) = {b \<in> set (alert_history mgr). sublist name (alert_id b)}"
    using arg_cong[OF Cons, of set] by simp
  have mem: "?m \<in> set (a # as)" by (rule py_max_key_mem)
  with members have m: "?m \<in> set (alert_history mgr)" "sublist name (alert_id ?m)"
    by blast+
  have ge: "Alert.timestamp b \<le> Alert.timestamp ?m"
    if "b \<in> set (alert_history mgr)" "sublist name (alert_id b)" for b
  proof -
    from that members have "b \<in> set (a # as)" by blast
    then have "b = a \<or> b \<in> set as" by simp
    then show ?thesis
      using py_max_key_start[of Alert.timestamp a as] py_max_key_ge[of b as Alert.timestamp a]
      by auto
  qed
  have "(now - Alert.timestamp ?m < timedelta_minutes (cooldown_minutes rule))
        = (\<exists>b \<in> set (alert_history mgr). sublist name (alert_id b)
                  \<and> now - Alert.timestamp b < timedelta_minutes (cooldown_minutes rule))"
    using m ge by (smt (verit))
  with Cons rule show ?thesis by (simp add: is_in_cooldown_def Let_def)
qed

lemma rules_distinct: "distinct (map fst initialize_alert_rules)"
  by (simp add: initialize_alert_rules_def)

lemma create_alert_fields:
  assumes "create_alert strftime fmt now name rule m = Inr alert"
  shows "alert_id alert = name @ ''_'' @ strftime now" and "Alert.timestamp alert = now"
  using assms by (auto simp: create_alert_def Let_def split: sum.splits)

lemma spaced_append:
  assumes "spaced rules h"
      and "\<And>n r b. (n, r) \<in> set rules \<Longrightarrow> sublist n (alert_id a) \<Longrightarrow> b \<in> set h
              \<Longrightarrow> sublist n (alert_id b)
              \<Longrightarrow> timedelta_minutes (cooldown_minutes r) \<le> Alert.timestamp a - Alert.timestamp b"
  shows "spaced rules (h @ [a])"
  unfolding spaced_def
proof (intro ballI allI impI, clarify)
  fix n r j i
  assume nr: "(n, r) \<in> set rules" and j: "j < length (h @ [a])" and i: "i < j"
    and mi: "sublist n (alert_id ((h @ [a]) ! i))" and mj: "sublist n (alert_id ((h @ [a]) ! j))"
  show "timedelta_minutes (cooldown_minutes r)
          \<le> Alert.timestamp ((h @ [a]) ! j) - Alert.timestamp ((h @ [a]) ! i)"
  proof (cases "j < length h")
    case True
    with i mi mj have "sublist n (alert_id (h ! i))" "sublist n (alert_id (h ! j))"
      by (simp_all add: nth_append)
    with assms(1) nr True i show ?thesis
      by (fastforce simp: spaced_def nth_append)
  next
    case False
    with j have jl: "j = length h" by simp
    with i mi mj have "sublist n (alert_id (h ! i))" "sublist n (alert_id a)" "h ! i \<in> set h"
      by (simp_all add: nth_append)
    with assms(2)[OF nr] jl i show ?thesis by (simp add: nth_append)
  qed
qed

lemma evaluate_loop_spaced:
  assumes digits: "\<forall>t. \<forall>c \<in> set (strftime t). is_digit c"
      and "alert_rules mgr = initialize_alert_rules"
      and "set rs \<subseteq> set initialize_alert_rules"
      and "spaced initialize_alert_rules (alert_history mgr)"
  shows "alert_rules (fst (evaluate_loop strftime fmt now m d rs mgr new)) = initialize_alert_rules
       \<and> spaced initialize_alert_rules (alert_history (fst (evaluate_loop strftime fmt now m d rs mgr new)))"
  using assms(2-4)
proof (induction rs arbitrary: mgr new)
  case Nil
  then show ?case by simp
next
  case (Cons nr rs)
  obtain name rule where nr: "nr = (name, rule)" by (cases nr)
  with Cons.prems have inr: "(name, rule) \<in> set initialize_alert_rules"
    and rs: "set rs \<subseteq> set initialize_alert_rules" by auto
  from inr rules_distinct Cons.prems(1) have look: "map_of (alert_rules mgr) name = Some rule"
    by simp
  note cool = cooldown_check[OF look, of now]
  show ?case
  proof (cases "\<exists>b \<in> set (alert_history mgr). sublist name (alert_id b)
                  \<and> now - Alert.timestamp b < timedelta_minutes (cooldown_minutes rule)")
    case True
    with cool have "is_in_cooldown now mgr name = Inr True" by simp
    with nr Cons.IH[OF Cons.prems(1) rs Cons.prems(3)] show ?thesis by simp
  next
    case False
    note far = this
    with cool have cool: "is_in_cooldown now mgr name = Inr False" by simp
    show ?thesis
    proof (cases "check_threshold rule m d")
      case (Inl e)
      with cool nr Cons.prems show ?thesis by simp
    next
      case (Inr exceeded)
      show ?thesis
      proof (cases exceeded)
        case False
        with Inr cool nr Cons.IH[OF Cons.prems(1) rs Cons.prems(3)] show ?thesis by simp
      next
        case True
        show ?thesis
        proof (cases "create_alert strftime fmt now name rule m")
          case (Inl e)
          with True Inr cool nr Cons.prems show ?thesis by simp
        next
          case (Inr alert)
          note created = create_alert_fields[OF Inr]
          let ?mgr = "mgr\<lparr> active_alerts := AList.update (alert_id alert) alert (active_alerts mgr),
                               alert_history := alert_history mgr @ [alert] \<rparr>"
          have rules': "alert_rules ?mgr = initialize_alert_rules" using Cons.prems(1) by simp
          have "spaced initialize_alert_rules (alert_history mgr @ [alert])"
          proof (rule spaced_append[OF Cons.prems(3)])
            fix n r b
            assume n: "(n, r) \<in> set initialize_alert_rules"
              and ma: "sublist n (alert_id alert)"
              and b: "b \<in> set (alert_history mgr)" "sublist n (alert_id b)"
            from ma created(1) have "sublist n (name @ ''_'' @ strftime now)" by simp
            moreover from n have "n \<in> fst ` set initialize_alert_rules" by force
            moreover from inr have "name \<in> fst ` set initialize_alert_rules" by force
            moreover from digits have "\<forall>c \<in> set (strftime now). is_digit c" by blast
            ultimately have "n = name"
              using rule_name_match[of n name "strftime now"] by blast
            with n inr rules_distinct have "r = rule"
              by (metis map_of_is_SomeI option.inject)
            with far b \<open>n = name\<close> created(2)
            show "timedelta_minutes (cooldown_minutes r) \<le> Alert.timestamp alert - Alert.timestamp b"
              by force
          qed
          then have sp': "spaced initialize_alert_rules (alert_history ?mgr)" by simp
          from Cons.IH[OF rules' rs sp', of "new @ [alert]"] Inr True \<open>check_threshold rule m d = Inr exceeded\<close>
            cool nr
          show ?thesis by simp
        qed
      qed
    qed
  qed
qed

lemma evaluate_run_spaced:
  assumes digits: "\<forall>t. \<forall>c \<in> set (strftime t). is_digit c"
      and "alert_rules mgr = initialize_alert_rules"
      and "spaced initialize_alert_rules (alert_history mgr)"
  shows "spaced initialize_alert_rules (alert_history (evaluate_run strftime fmt mgr calls))"
  using assms(2,3)
proof (induction calls arbitrary: mgr)
  case Nil
  then show ?case by (simp add: evaluate_run_def)
next
  case (Cons call calls)
  obtain now m d where call: "call = (now, m, d)" by (cases call)
  let ?mgr = "fst (evaluate_alerts strftime fmt now mgr m d)"
  from evaluate_loop_spaced[OF digits Cons.prems(1) _ Cons.prems(2), of initialize_alert_rules fmt now m d "[]"]
    Cons.prems(1)
  have "alert_rules ?mgr = initialize_alert_rules"
    "spaced initialize_alert_rules (alert_history ?mgr)"
    by (simp_all add: evaluate_alerts_def)
  from Cons.IH[OF this] call show ?case by (simp add: evaluate_run_def)
qed


lemma init_spaced: "spaced initialize_alert_rules (alert_history init_alert_manager)"
  by (simp add: spaced_def init_alert_manager_def)

text \<open>
  C9. For the rules of the alert manager and a clock format of digits, any two alerts of a
  rule in the history of a manager, after any sequence of calls of \<^verbatim>\<open>evaluate_alerts\<close>
  with any metrics and drift results, are at least the cooldown of the rule apart. A rule
  with an alert less than its cooldown ago is skipped by the loop, whatever the metrics.
\<close>

theorem cooldown_respected:
  assumes digits: "\<forall>t. \<forall>c \<in> set (strftime t). is_digit c"
      and rule: "(name, rule) \<in> set initialize_alert_rules"
  shows "(i < j \<and> j < length (alert_history (evaluate_run strftime fmt init_alert_manager calls))
          \<and> sublist name (alert_id (alert_history (evaluate_run strftime fmt init_alert_manager calls) ! i))
          \<and> sublist name (alert_id (alert_history (evaluate_run strftime fmt init_alert_manager calls) ! j))
          \<longrightarrow> timedelta_minutes (cooldown_minutes rule)
                \<le> Alert.timestamp (alert_history (evaluate_run strftime fmt init_alert_manager calls) ! j)
                  - Alert.timestamp (alert_history (evaluate_run strftime fmt init_alert_manager calls) ! i))
       \<and> (alert_rules mgr = initialize_alert_rules
          \<and> (\<exists>b \<in> set (alert_history mgr). sublist name (alert_id b)
                 \<and> now - Alert.timestamp b < timedelta_minutes (cooldown_minutes rule))
          \<longrightarrow> evaluate_loop strftime fmt now m d ((name, rule) # rest) mgr new
                = evaluate_loop strftime fmt now m d rest mgr new)"
proof (intro conjI impI)
  let ?h = "alert_history (evaluate_run strftime fmt init_alert_manager calls)"
  assume a: "i < j \<and> j < length ?h \<and> sublist name (alert_id (?h ! i))
             \<and> sublist name (alert_id (?h ! j))"
  have "spaced initialize_alert_rules ?h"
    using evaluate_run_spaced[OF digits _ init_spaced, of fmt calls]
    by (simp add: init_alert_manager_def)
  with rule a show "timedelta_minutes (cooldown_minutes rule)
                \<le> Alert.timestamp (?h ! j) - Alert.timestamp (?h ! i)"
    by (fastforce simp: spaced_def)
next
  assume a: "alert_rules mgr = initialize_alert_rules
          \<and> (\<exists>b \<in> set (alert_history mgr). sublist name (alert_id b)
                 \<and> now - Alert.timestamp b < timedelta_minutes (cooldown_minutes rule))"
  with rule rules_distinct have "map_of (alert_rules mgr) name = Some rule" by simp
  from cooldown_check[OF this, of now] a have "is_in_cooldown now mgr name = Inr True" by simp
  then show "evaluate_loop strftime fmt now m d ((name, rule) # rest) mgr new
                = evaluate_loop strftime fmt now m d rest mgr new"
    by simp
qed

lemma digits_of_digits: "\<forall>c \<in> set (digits_of n). is_digit c"
proof (induction n rule: digits_of.induct)
  case (1 n)
  have d: "is_digit (''0123456789'' ! k)" if "k < 10" for k
  proof -
    from that have "k < length ''0123456789''" by simp
    then have "''0123456789'' ! k \<in> set ''0123456789''" by (rule nth_mem)
    then show ?thesis by (simp add: is_digit_def)
  qed
  show ?case
  proof (cases "n < 10")
    case True
    with d[of n] show ?thesis by (simp add: digits_of.simps[of n])
  next
    case False
    with 1 d[of "n mod 10"] show ?thesis by (simp add: digits_of.simps[of n])
  qed
qed

lemma stamp_values:
  "stamp 0 = ''0''" "stamp 300000000 = ''300''" "stamp 1200000000 = ''1200''"
  by (simp_all add: stamp_def digits_of.simps)


lemma error_run_history:
  "map (\<lambda>a. (alert_id a, Alert.timestamp a))
     (alert_history (evaluate_run stamp spec_fmt init_alert_manager error_calls))
   = [(''high_error_rate_0'', 0), (''high_error_rate_1200'', 1200000000)]"
  by (simp add: evaluate_run_def error_calls_def evaluate_alerts_def init_alert_manager_def
      initialize_alert_rules_def is_in_cooldown_def check_threshold_def create_alert_def
      generate_alert_description_def generate_alert_title_def compare_values_def num_of_def
      rule_num_def error_metrics_def timedelta_minutes_def stamp_values spec_fmt_def
      sublist_code prefix_code Let_def)


lemma first_call_history:
  "alert_rules (evaluate_run stamp spec_fmt init_alert_manager [(0, error_metrics, None)])
     = initialize_alert_rules
   \<and> map (\<lambda>a. (alert_id a, Alert.timestamp a))
       (alert_history (evaluate_run stamp spec_fmt init_alert_manager [(0, error_metrics, None)]))
     = [(''high_error_rate_0'', 0)]"
  by (simp add: evaluate_run_def evaluate_alerts_def init_alert_manager_def
      initialize_alert_rules_def is_in_cooldown_def check_threshold_def create_alert_def
      generate_alert_description_def generate_alert_title_def compare_values_def num_of_def
      rule_num_def error_metrics_def timedelta_minutes_def stamp_values spec_fmt_def
      sublist_code prefix_code Let_def)

theorem cooldown_respected_witness:
  "(''high_error_rate'',
      \<lparr> metric = ''error_rate'', alert_rule.threshold = RNum 0.05, comparison = ''greater'',
        alert_rule.severity = ''high'', cooldown_minutes = 15 \<rparr>) \<in> set initialize_alert_rules
   \<and> 1 < length (alert_history (evaluate_run stamp spec_fmt init_alert_manager error_calls))
   \<and> sublist ''high_error_rate''
         (alert_id (alert_history (evaluate_run stamp spec_fmt init_alert_manager error_calls) ! 0))
   \<and> sublist ''high_error_rate''
         (alert_id (alert_history (evaluate_run stamp spec_fmt init_alert_manager error_calls) ! 1))
   \<and> timedelta_minutes 15
         \<le> Alert.timestamp (alert_history (evaluate_run stamp spec_fmt init_alert_manager error_calls) ! 1)
           - Alert.timestamp (alert_history (evaluate_run stamp spec_fmt init_alert_manager error_calls) ! 0)
   \<and> evaluate_loop stamp spec_fmt 300000000 error_metrics None
         [(''high_error_rate'',
            \<lparr> metric = ''error_rate'', alert_rule.threshold = RNum 0.05, comparison = ''greater'',
              alert_rule.severity = ''high'', cooldown_minutes = 15 \<rparr>)]
         (evaluate_run stamp spec_fmt init_alert_manager [(0, error_metrics, None)]) []
       = (evaluate_run stamp spec_fmt init_alert_manager [(0, error_metrics, None)], Inr [])"
proof -
  let ?rule = "\<lparr> metric = ''error_rate'', alert_rule.threshold = RNum 0.05, comparison = ''greater'',
        alert_rule.severity = ''high'', cooldown_minutes = 15 \<rparr>"
  let ?h = "alert_history (evaluate_run stamp spec_fmt init_alert_manager error_calls)"
  let ?mgr = "evaluate_run stamp spec_fmt init_alert_manager [(0, error_metrics, None)]"
  have digits: "\<forall>t. \<forall>c \<in> set (stamp t). is_digit c"
    using digits_of_digits by (simp add: stamp_def)
  have rule: "(''high_error_rate'', ?rule) \<in> set initialize_alert_rules"
    by (simp add: initialize_alert_rules_def)
  from error_run_history obtain a b where h: "?h = [a, b]"
    and a: "alert_id a = ''high_error_rate_0''" "Alert.timestamp a = 0"
    and b: "alert_id b = ''high_error_rate_1200''" "Alert.timestamp b = 1200000000"
    by (auto simp: map_eq_Cons_conv)
  have len: "1 < length ?h" by (simp add: h)
  have m0: "sublist ''high_error_rate'' (alert_id (?h ! 0))"
    by (simp add: h a sublist_code prefix_code)
  have m1: "sublist ''high_error_rate'' (alert_id (?h ! 1))"
    by (simp add: h b sublist_code prefix_code)
  from first_call_history obtain c where mh: "alert_history ?mgr = [c]"
    and c: "alert_id c = ''high_error_rate_0''" "Alert.timestamp c = 0"
    and rules: "alert_rules ?mgr = initialize_alert_rules"
    by (auto simp: map_eq_Cons_conv)
  have recent: "\<exists>b \<in> set (alert_history ?mgr). sublist ''high_error_rate'' (alert_id b)
      \<and> 300000000 - Alert.timestamp b < timedelta_minutes (cooldown_minutes ?rule)"
    by (simp add: mh c sublist_code prefix_code timedelta_minutes_def)
  note inst = cooldown_respected[OF digits rule, where fmt = spec_fmt and calls = error_calls
      and i = 0 and j = 1 and mgr = ?mgr and now = 300000000 and m = error_metrics and d = None
      and rest = "[]" and new = "[]"]
  from inst len m0 m1
  have far: "timedelta_minutes 15 \<le> Alert.timestamp (?h ! 1) - Alert.timestamp (?h ! 0)"
    by simp
  from inst rules recent
  have skip: "evaluate_loop stamp spec_fmt 300000000 error_metrics None
         [(''high_error_rate'', ?rule)] ?mgr [] = (?mgr, Inr [])"
    by simp
  from rule len m0 m1 far skip show ?thesis by blast
qed

end
